theory Spec2Isabelle
  imports Main "HOL-Library.Word" "HOL-Library.Sublist"
begin

section \<open>Text\<close>

text \<open>
  The program is TypeScript. Its strings are modelled as \<^typ>\<open>string\<close>: one \<^typ>\<open>char\<close>
  stands for the code unit of the same number, so the model covers text whose code units
  lie below 256. The library functions the source calls on strings are written out
  below with the behaviour ECMAScript gives them.
\<close>

text \<open>
  \<^verbatim>\<open>String.prototype.trim\<close> removes white space and line terminators from both ends.
  Of the code units ECMAScript counts as such, these are the ones below 256: TAB, LF, VT,
  FF, CR, SPACE and NO-BREAK SPACE.
\<close>

definition isWhiteSpace :: "char \<Rightarrow> bool" where
  "isWhiteSpace c =
     (c = CHR 0x09 \<or> c = CHR 0x0A \<or> c = CHR 0x0B \<or> c = CHR 0x0C \<or> c = CHR 0x0D
      \<or> c = CHR 0x20 \<or> c = CHR 0xA0)"

definition trim :: "string \<Rightarrow> string" where
  "trim s = rev (dropWhile isWhiteSpace (rev (dropWhile isWhiteSpace s)))"

text \<open>\<^verbatim>\<open>s.includes(p)\<close>: \<open>p\<close> occurs in \<open>s\<close> as a contiguous run.\<close>

fun str_includes :: "string \<Rightarrow> string \<Rightarrow> bool" where
  "str_includes [] p = (p = [])"
| "str_includes (c # cs) p = (take (length p) (c # cs) = p \<or> str_includes cs p)"

text \<open>\<^verbatim>\<open>xs.join(sep)\<close>.\<close>

fun join :: "string \<Rightarrow> string list \<Rightarrow> string" where
  "join sep [] = []"
| "join sep [x] = x"
| "join sep (x # y # ys) = x @ sep @ join sep (y # ys)"

text \<open>
  \<^verbatim>\<open>s.lastIndexOf(c)\<close> for a single character: the index of its last occurrence, or
  \<open>-1\<close>. \<^verbatim>\<open>s.substring(0, n)\<close> clamps \<open>n\<close> to the range from 0 to the length.
\<close>

definition lastIndexOf :: "string \<Rightarrow> char \<Rightarrow> int" where
  "lastIndexOf s c =
     (if c \<in> set s then int (length s) - 1 - int (length (takeWhile (\<lambda>x. x \<noteq> c) (rev s)))
      else - 1)"

definition substring0 :: "string \<Rightarrow> int \<Rightarrow> string" where
  "substring0 s n = take (nat n) s"

text \<open>
  A number inside a template literal is printed in decimal. Exit codes are integers, so
  the model prints an \<^typ>\<open>int\<close>.
\<close>

definition digit :: "nat \<Rightarrow> char" where
  "digit d = char_of (48 + d)"

function showNat :: "nat \<Rightarrow> string" where
  "showNat n = (if n < 10 then [digit n] else showNat (n div 10) @ [digit (n mod 10)])"
  by pat_completeness auto
termination
  by (relation "measure id") auto

declare showNat.simps [simp del]

definition showInt :: "int \<Rightarrow> string" where
  "showInt i = (if i < 0 then CHR ''-'' # showNat (nat (- i)) else showNat (nat i))"

section \<open>Promises\<close>

text \<open>
  Every method of the program is \<^verbatim>\<open>async\<close>. An awaited promise resolves with a value,
  rejects with an exception, or never settles; a synchronous call that returns, throws or
  does not return is the same three cases.

  Any value can be thrown. Of what it catches the source reads only the property
  \<^verbatim>\<open>message\<close> (\<^verbatim>\<open>(error as Error).message\<close>; the cast checks nothing at run time), so
  a thrown value is one of: an object whose \<^verbatim>\<open>message\<close> is a string, as every
  \<^verbatim>\<open>Error\<close> is; a value other than null and undefined with no \<^verbatim>\<open>message\<close>, such as a
  thrown string; \<^verbatim>\<open>null\<close>; \<^verbatim>\<open>undefined\<close>. Reading \<^verbatim>\<open>message\<close> gives the string in
  the first case and \<^verbatim>\<open>undefined\<close> in the second; on null and undefined the read itself
  throws a \<^verbatim>\<open>TypeError\<close>, whose message is the runtime's (the wording is V8's).
\<close>

datatype exn = Error string | Messageless | Null | Undefined

fun readMessage :: "exn \<Rightarrow> exn + string option" where
  \<open>readMessage (Error m) = Inr (Some m)\<close>
| \<open>readMessage Messageless = Inr None\<close>
| \<open>readMessage Null = Inl (Error ''Cannot read properties of null (reading 'message')'')\<close>
| \<open>readMessage Undefined = Inl (Error ''Cannot read properties of undefined (reading 'message')'')\<close>

datatype 'a outcome = Resolved 'a | Rejected exn | Pending

section \<open>DockerManager.executeCommand\<close>

type_synonym byte = "8 word"

record execResult =
  exitCode :: int
  stdout :: string
  stderr :: string

text \<open>
  What the Docker client does during one call of \<^verbatim>\<open>executeCommand\<close> is the input of
  the model: whether \<^verbatim>\<open>container.exec\<close> and \<^verbatim>\<open>exec.start\<close> resolve, the events the
  stream emits (\<^verbatim>\<open>data\<close> with a chunk, \<^verbatim>\<open>end\<close>, \<^verbatim>\<open>error\<close>), and what
  \<^verbatim>\<open>exec.inspect\<close> resolves with; \<^verbatim>\<open>ExitCode\<close> is a number or null.
\<close>

datatype streamEvent = Data "byte list" | End | StreamError exn

record execSession =
  execCreated :: "unit outcome"
  execStarted :: "unit outcome"
  streamEvents :: "streamEvent list"
  inspectExitCode :: "int option outcome"

text \<open>
  The \<^verbatim>\<open>data\<close> handler. \<^verbatim>\<open>chunk.slice(8).toString()\<close> decodes the bytes after the
  header as text; the decoder belongs to the runtime and is the parameter \<open>decode\<close>.
  The pair is the two variables \<^verbatim>\<open>stdout\<close> and \<^verbatim>\<open>stderr\<close>.
\<close>

definition onData :: "(byte list \<Rightarrow> string) \<Rightarrow> byte list \<Rightarrow> string \<times> string \<Rightarrow> string \<times> string" where
  "onData decode chunk acc =
     (case acc of (out, err) \<Rightarrow>
        if length chunk > 8 then
          let header = chunk ! 0; data = decode (drop 8 chunk) in
          if header = 1 then (out @ data, err)
          else if header = 2 then (out, err @ data)
          else (out, err)
        else (out, err))"

text \<open>
  The promise around the stream: \<^verbatim>\<open>end\<close> resolves it, \<^verbatim>\<open>error\<close> rejects it, and a
  stream that emits neither leaves it pending. A readable stream emits no \<^verbatim>\<open>data\<close>
  after \<^verbatim>\<open>end\<close>, so the events after the settling one are not looked at.
\<close>

fun collectOutput ::
  "(byte list \<Rightarrow> string) \<Rightarrow> streamEvent list \<Rightarrow> string \<times> string \<Rightarrow> (string \<times> string) outcome" where
  "collectOutput decode [] acc = Pending"
| "collectOutput decode (Data chunk # evs) acc = collectOutput decode evs (onData decode chunk acc)"
| "collectOutput decode (End # evs) acc = Resolved acc"
| "collectOutput decode (StreamError e # evs) acc = Rejected e"

definition executeCommand :: "(byte list \<Rightarrow> string) \<Rightarrow> execSession \<Rightarrow> execResult outcome" where
  "executeCommand decode session =
     (case execCreated session of
        Rejected e \<Rightarrow> Rejected e
      | Pending \<Rightarrow> Pending
      | Resolved _ \<Rightarrow>
     (case execStarted session of
        Rejected e \<Rightarrow> Rejected e
      | Pending \<Rightarrow> Pending
      | Resolved _ \<Rightarrow>
     (case collectOutput decode (streamEvents session) ([], []) of
        Rejected e \<Rightarrow> Rejected e
      | Pending \<Rightarrow> Pending
      | Resolved (out, err) \<Rightarrow>
     (case inspectExitCode session of
        Rejected e \<Rightarrow> Rejected e
      | Pending \<Rightarrow> Pending
      | Resolved inspected \<Rightarrow>
          Resolved \<lparr> exitCode = (case inspected of Some code \<Rightarrow> code | None \<Rightarrow> 0),
                     stdout = trim out,
                     stderr = trim err \<rparr>))))"

section \<open>Domain types\<close>

text \<open>
  The interfaces of the domain model that the scenario runner reads or builds. An optional
  field \<^verbatim>\<open>f?: T\<close> is a field of type \<open>T option\<close>. A matcher is
  \<^verbatim>\<open>string | RegExp\<close>; of a regular expression the runner uses its printed form
  (in a template literal) and \<^verbatim>\<open>test\<close>, taken here as a predicate on the text. A
  pattern with the global or the sticky flag keeps a position from one test to the next;
  the model covers the patterns without these flags. The records have the fields the
  runner sets or reads: it builds progress events without \<^verbatim>\<open>progress\<close>, and results
  without \<^verbatim>\<open>scenarioName\<close>, \<^verbatim>\<open>testType\<close> and \<^verbatim>\<open>args\<close>. The interface gives
  \<^verbatim>\<open>stderr\<close> of a result the type \<^verbatim>\<open>string\<close>, but the runner stores there the
  \<^verbatim>\<open>message\<close> of what it caught, which can be \<^verbatim>\<open>undefined\<close>: the field is optional
  in the model.
\<close>

datatype matcher = Text string | Pattern string "string \<Rightarrow> bool"

datatype commandType = PRIMARY | ALIAS | UTILITY

record cliCommand =
  command_name :: string
  command_path :: string
  command_type :: commandType

datatype testStage =
    ANALYZING | DETECTING_COMMANDS | PULLING_IMAGE | CREATING_CONTAINER
  | INSTALLING_PACKAGE | TESTING_COMMAND | CLEANING_UP | COMPLETED | ERROR

record progressEvent =
  stage :: testStage
  event_message :: string
  currentCommand :: "string option"

record testFile =
  file_path :: string
  file_content :: string

record testSetup =
  files :: "testFile list option"
  directories :: "string list option"
  dependencies :: "string list option"
  initNpm :: "bool option"

record fileContentValidation =
  check_path :: string
  contains :: "matcher list option"
  notContains :: "matcher list option"
  equals :: "string option"

record testValidation =
  expect_exitCode :: "int option"
  expect_stdout :: "matcher list option"
  expect_stderr :: "matcher list option"
  filesExist :: "string list option"
  filesNotExist :: "string list option"
  fileContents :: "fileContentValidation list option"

record testScenario =
  scenario_name :: string
  description :: "string option"
  scenario_setup :: "testSetup option"
  scenario_command :: string
  scenario_args :: "string list option"
  validate :: testValidation

record validationResult =
  passed :: bool
  error :: "string option"

record commandTestResult =
  result_command :: cliCommand
  result_nodeVersion :: string
  result_passed :: bool
  result_duration :: int
  result_exitCode :: int
  result_stdout :: string
  result_stderr :: "string option"
  result_error :: "string option"
  hasHelpOutput :: bool
  hasVersionOutput :: bool

section \<open>The host of the scenario runner\<close>

text \<open>
  The runner is constructed with a \<^verbatim>\<open>DockerManager\<close> and calls five of its methods:
  \<^verbatim>\<open>executeCommand\<close>, and \<^verbatim>\<open>createDirectory\<close>, \<^verbatim>\<open>createFile\<close>,
  \<^verbatim>\<open>fileExists\<close> and \<^verbatim>\<open>readFile\<close>, whose bodies the source of \<^verbatim>\<open>DockerManager\<close>
  does not hold. The runner depends on all five through their outcomes only, so the injected
  object is a parameter: the host gives, for a world \<open>'w\<close>, the outcome of each method
  and the world after it, and the reading of the clock (\<^verbatim>\<open>Date.now()\<close>). The state of
  a run is the world and the list of the calls made so far, in the order they were made,
  as a spy on the injected object would record them.
\<close>

datatype call =
    CreateDirectory string string
  | CreateFile string string string
  | ExecuteCommand string "string list"
  | FileExists string string
  | ReadFile string string
  | Progress progressEvent

record 'w host =
  dm_createDirectory :: "string \<Rightarrow> string \<Rightarrow> 'w \<Rightarrow> unit outcome \<times> 'w"
  dm_createFile :: "string \<Rightarrow> string \<Rightarrow> string \<Rightarrow> 'w \<Rightarrow> unit outcome \<times> 'w"
  dm_executeCommand :: "string \<Rightarrow> string list \<Rightarrow> 'w \<Rightarrow> execResult outcome \<times> 'w"
  dm_fileExists :: "string \<Rightarrow> string \<Rightarrow> 'w \<Rightarrow> bool outcome \<times> 'w"
  dm_readFile :: "string \<Rightarrow> string \<Rightarrow> 'w \<Rightarrow> string outcome \<times> 'w"
  date_now :: "'w \<Rightarrow> int"

record 'w state =
  world :: 'w
  calls :: "call list"

type_synonym ('a, 'w) promise = "'w state \<Rightarrow> 'a outcome \<times> 'w state"

definition resolve :: "'a \<Rightarrow> ('a, 'w) promise" where
  "resolve x st = (Resolved x, st)"

definition reject :: "exn \<Rightarrow> ('a, 'w) promise" where
  "reject e st = (Rejected e, st)"

text \<open>\<^verbatim>\<open>await m\<close> followed by the rest of the function body.\<close>

definition await :: "('a, 'w) promise \<Rightarrow> ('a \<Rightarrow> ('b, 'w) promise) \<Rightarrow> ('b, 'w) promise" where
  "await m k st =
     (case m st of
        (Resolved x, st') \<Rightarrow> k x st'
      | (Rejected e, st') \<Rightarrow> (Rejected e, st')
      | (Pending, st') \<Rightarrow> (Pending, st'))"

text \<open>\<^verbatim>\<open>try { body } catch (error) { handler }\<close>.\<close>

definition tryCatch :: "('a, 'w) promise \<Rightarrow> (exn \<Rightarrow> ('a, 'w) promise) \<Rightarrow> ('a, 'w) promise" where
  "tryCatch body handler st =
     (case body st of
        (Resolved x, st') \<Rightarrow> (Resolved x, st')
      | (Rejected e, st') \<Rightarrow> handler e st'
      | (Pending, st') \<Rightarrow> (Pending, st'))"

text \<open>A call of the host: it is recorded, then the host acts on the world.\<close>

definition perform :: "call \<Rightarrow> ('w \<Rightarrow> 'a outcome \<times> 'w) \<Rightarrow> ('a, 'w) promise" where
  "perform c op st =
     (case op (world st) of (r, w') \<Rightarrow> (r, \<lparr> world = w', calls = calls st @ [c] \<rparr>))"

definition dockerManager_createDirectory :: "'w host \<Rightarrow> string \<Rightarrow> string \<Rightarrow> (unit, 'w) promise" where
  "dockerManager_createDirectory H containerId dirPath =
     perform (CreateDirectory containerId dirPath) (dm_createDirectory H containerId dirPath)"

definition dockerManager_createFile :: "'w host \<Rightarrow> string \<Rightarrow> string \<Rightarrow> string \<Rightarrow> (unit, 'w) promise" where
  "dockerManager_createFile H containerId filePath content =
     perform (CreateFile containerId filePath content) (dm_createFile H containerId filePath content)"

definition dockerManager_executeCommand :: "'w host \<Rightarrow> string \<Rightarrow> string list \<Rightarrow> (execResult, 'w) promise" where
  "dockerManager_executeCommand H containerId argv =
     perform (ExecuteCommand containerId argv) (dm_executeCommand H containerId argv)"

definition dockerManager_fileExists :: "'w host \<Rightarrow> string \<Rightarrow> string \<Rightarrow> (bool, 'w) promise" where
  "dockerManager_fileExists H containerId filePath =
     perform (FileExists containerId filePath) (dm_fileExists H containerId filePath)"

definition dockerManager_readFile :: "'w host \<Rightarrow> string \<Rightarrow> string \<Rightarrow> (string, 'w) promise" where
  "dockerManager_readFile H containerId filePath =
     perform (ReadFile containerId filePath) (dm_readFile H containerId filePath)"

definition dateNow :: "'w host \<Rightarrow> (int, 'w) promise" where
  "dateNow H st = (Resolved (date_now H (world st)), st)"

text \<open>
  \<^verbatim>\<open>if (onProgress) { onProgress(event) }\<close>: the callback is optional, and it is a
  function of the caller, which may throw.
\<close>

fun notify :: "(progressEvent \<Rightarrow> 'w \<Rightarrow> unit outcome \<times> 'w) option \<Rightarrow> progressEvent \<Rightarrow> (unit, 'w) promise" where
  "notify None event = resolve ()"
| "notify (Some onProgress) event = perform (Progress event) (onProgress event)"

text \<open>
  \<^verbatim>\<open>for (const x of xs) { await body(x) }\<close>, and the same loop when each round may push
  messages onto \<^verbatim>\<open>errors\<close>: a round yields the messages it pushes, in order, and the
  loop yields them all, in order.
\<close>

fun forEach :: "('a \<Rightarrow> (unit, 'w) promise) \<Rightarrow> 'a list \<Rightarrow> (unit, 'w) promise" where
  "forEach body [] = resolve ()"
| "forEach body (x # xs) = await (body x) (\<lambda>_. forEach body xs)"

fun collectEach :: "('a \<Rightarrow> (string list, 'w) promise) \<Rightarrow> 'a list \<Rightarrow> (string list, 'w) promise" where
  "collectEach body [] = resolve []"
| "collectEach body (x # xs) =
     await (body x) (\<lambda>pushed. await (collectEach body xs) (\<lambda>later. resolve (pushed @ later)))"

section \<open>ScenarioRunner.setupScenario\<close>

text \<open>The body of the loop over \<^verbatim>\<open>setup.files\<close>.\<close>

definition createTestFile :: "'w host \<Rightarrow> string \<Rightarrow> testFile \<Rightarrow> (unit, 'w) promise" where
  \<open>createTestFile H containerId file =
     (let filePath = ''/test/'' @ file_path file;
          parentDir = substring0 filePath (lastIndexOf filePath (CHR ''/''))
      in await (if parentDir \<noteq> ''/test''
                then dockerManager_createDirectory H containerId parentDir
                else resolve ())
           (\<lambda>_. dockerManager_createFile H containerId filePath (file_content file)))\<close>

definition npmInit :: "string list" where
  \<open>npmInit = [''sh'', ''-c'', ''cd /test && npm init -y'']\<close>

definition npmInstall :: "string list \<Rightarrow> string list" where
  \<open>npmInstall dependencies_list =
     (let deps = join '' '' dependencies_list
      in [''sh'', ''-c'', ''cd /test && npm install '' @ deps])\<close>

definition setupScenario :: "'w host \<Rightarrow> string \<Rightarrow> testSetup option \<Rightarrow> (unit, 'w) promise" where
  \<open>setupScenario H containerId setup_opt =
     (case setup_opt of
        None \<Rightarrow> resolve ()
      | Some su \<Rightarrow>
          await (case directories su of
                   None \<Rightarrow> resolve ()
                 | Some dirs \<Rightarrow>
                     forEach (\<lambda>dir. dockerManager_createDirectory H containerId (''/test/'' @ dir)) dirs)
          (\<lambda>_. await (case files su of
                   None \<Rightarrow> resolve ()
                 | Some fs \<Rightarrow> forEach (createTestFile H containerId) fs)
          (\<lambda>_. await (if initNpm su = Some True
                       then await (dockerManager_executeCommand H containerId npmInit) (\<lambda>_. resolve ())
                       else resolve ())
          (\<lambda>_. case dependencies su of
                   None \<Rightarrow> resolve ()
                 | Some deps \<Rightarrow>
                     if length deps > 0
                     then await (dockerManager_executeCommand H containerId (npmInstall deps))
                            (\<lambda>_. resolve ())
                     else resolve ()))))\<close>

section \<open>ScenarioRunner.validateScenario\<close>

text \<open>
  The method pushes its messages onto one array \<^verbatim>\<open>errors\<close>, category after category.
  Each category is written as the list of the messages it pushes; the array at the end is
  their concatenation in the order of the source.
\<close>

definition checkExitCode :: "testValidation \<Rightarrow> execResult \<Rightarrow> string list" where
  \<open>checkExitCode validation result =
     (let expectedExitCode = (case expect_exitCode validation of Some n \<Rightarrow> n | None \<Rightarrow> 0)
      in if exitCode result \<noteq> expectedExitCode
         then [''Expected exit code '' @ showInt expectedExitCode @ '', got '' @ showInt (exitCode result)]
         else [])\<close>

definition checkStdoutPattern :: "string \<Rightarrow> matcher \<Rightarrow> string list" where
  \<open>checkStdoutPattern out pattern =
     (case pattern of
        Text t \<Rightarrow>
          if \<not> str_includes out t then [''Stdout missing expected text: "'' @ t @ ''"''] else []
      | Pattern printed test \<Rightarrow>
          if \<not> test out then [''Stdout doesn't match pattern: '' @ printed] else [])\<close>

definition checkStdout :: "testValidation \<Rightarrow> execResult \<Rightarrow> string list" where
  "checkStdout validation result =
     (case expect_stdout validation of
        None \<Rightarrow> []
      | Some patterns \<Rightarrow> concat (map (checkStdoutPattern (stdout result)) patterns))"

definition checkStderrPattern :: "string \<Rightarrow> matcher \<Rightarrow> string list" where
  \<open>checkStderrPattern err pattern =
     (case pattern of
        Text t \<Rightarrow>
          if \<not> str_includes err t then [''Stderr missing expected text: "'' @ t @ ''"''] else []
      | Pattern printed test \<Rightarrow>
          if \<not> test err then [''Stderr doesn't match pattern: '' @ printed] else [])\<close>

definition checkStderr :: "testValidation \<Rightarrow> execResult \<Rightarrow> string list" where
  "checkStderr validation result =
     (case expect_stderr validation of
        None \<Rightarrow> []
      | Some patterns \<Rightarrow> concat (map (checkStderrPattern (stderr result)) patterns))"

definition checkFileExists :: "'w host \<Rightarrow> string \<Rightarrow> string \<Rightarrow> (string list, 'w) promise" where
  \<open>checkFileExists H containerId filePath =
     await (dockerManager_fileExists H containerId (''/test/'' @ filePath))
       (\<lambda>exists. resolve (if \<not> exists then [''Expected file not found: '' @ filePath] else []))\<close>

definition checkFileNotExists :: "'w host \<Rightarrow> string \<Rightarrow> string \<Rightarrow> (string list, 'w) promise" where
  \<open>checkFileNotExists H containerId filePath =
     await (dockerManager_fileExists H containerId (''/test/'' @ filePath))
       (\<lambda>exists. resolve (if exists then [''File should not exist: '' @ filePath] else []))\<close>

text \<open>The three checks on the content of one file, once it has been read.\<close>

definition checkEquals :: "fileContentValidation \<Rightarrow> string \<Rightarrow> string list" where
  \<open>checkEquals fileCheck content =
     (case equals fileCheck of
        None \<Rightarrow> []
      | Some expected \<Rightarrow>
          if trim content \<noteq> trim expected
          then [''File '' @ check_path fileCheck @ '' content doesn't match expected'']
          else [])\<close>

definition checkContainsPattern :: "string \<Rightarrow> string \<Rightarrow> matcher \<Rightarrow> string list" where
  \<open>checkContainsPattern path content pattern =
     (case pattern of
        Text t \<Rightarrow>
          if \<not> str_includes content t
          then [''File '' @ path @ '' missing expected text: "'' @ t @ ''"''] else []
      | Pattern printed test \<Rightarrow>
          if \<not> test content
          then [''File '' @ path @ '' doesn't match pattern: '' @ printed] else [])\<close>

definition checkNotContainsPattern :: "string \<Rightarrow> string \<Rightarrow> matcher \<Rightarrow> string list" where
  \<open>checkNotContainsPattern path content pattern =
     (case pattern of
        Text t \<Rightarrow>
          if str_includes content t
          then [''File '' @ path @ '' contains unexpected text: "'' @ t @ ''"''] else []
      | Pattern printed test \<Rightarrow>
          if test content
          then [''File '' @ path @ '' matches unexpected pattern: '' @ printed] else [])\<close>

definition checkContent :: "fileContentValidation \<Rightarrow> string \<Rightarrow> string list" where
  "checkContent fileCheck content =
     checkEquals fileCheck content
     @ (case contains fileCheck of
          None \<Rightarrow> []
        | Some patterns \<Rightarrow> concat (map (checkContainsPattern (check_path fileCheck) content) patterns))
     @ (case notContains fileCheck of
          None \<Rightarrow> []
        | Some patterns \<Rightarrow> concat (map (checkNotContainsPattern (check_path fileCheck) content) patterns))"

text \<open>
  One round of the loop over \<^verbatim>\<open>fileContents\<close>: the \<^verbatim>\<open>try\<close> around the read and the
  checks turns a rejected read into one message. The message is a template literal, where
  \<^verbatim>\<open>undefined\<close> prints as that word; when reading \<^verbatim>\<open>message\<close> throws, the handler
  throws.
\<close>

definition checkFileContent :: "'w host \<Rightarrow> string \<Rightarrow> fileContentValidation \<Rightarrow> (string list, 'w) promise" where
  \<open>checkFileContent H containerId fileCheck =
     tryCatch
       (await (dockerManager_readFile H containerId (''/test/'' @ check_path fileCheck))
          (\<lambda>content. resolve (checkContent fileCheck content)))
       (\<lambda>err. case readMessage err of
                 Inl typeError \<Rightarrow> reject typeError
               | Inr msg \<Rightarrow>
                   resolve [''Failed to read file '' @ check_path fileCheck @ '': ''
                            @ (case msg of Some m \<Rightarrow> m | None \<Rightarrow> ''undefined'')])\<close>

definition collectErrors ::
  "'w host \<Rightarrow> string \<Rightarrow> testScenario \<Rightarrow> execResult \<Rightarrow> (string list, 'w) promise" where
  "collectErrors H containerId scenario result =
     (let validation = validate scenario;
          output_errors = checkExitCode validation result
                          @ checkStdout validation result
                          @ checkStderr validation result
      in await (case filesExist validation of
                  None \<Rightarrow> resolve []
                | Some paths \<Rightarrow> collectEach (checkFileExists H containerId) paths)
         (\<lambda>missing. await (case filesNotExist validation of
                  None \<Rightarrow> resolve []
                | Some paths \<Rightarrow> collectEach (checkFileNotExists H containerId) paths)
         (\<lambda>unexpected. await (case fileContents validation of
                  None \<Rightarrow> resolve []
                | Some fileChecks \<Rightarrow> collectEach (checkFileContent H containerId) fileChecks)
         (\<lambda>content_errors. resolve (output_errors @ missing @ unexpected @ content_errors)))))"

definition validateScenario ::
  "'w host \<Rightarrow> string \<Rightarrow> testScenario \<Rightarrow> execResult \<Rightarrow> (validationResult, 'w) promise" where
  \<open>validateScenario H containerId scenario result =
     await (collectErrors H containerId scenario result)
       (\<lambda>errors. if length errors > 0
                  then resolve \<lparr> passed = False, error = Some (join ''; '' errors) \<rparr>
                  else resolve \<lparr> passed = True, error = None \<rparr>)\<close>

section \<open>ScenarioRunner.runScenario\<close>

definition setupPhase ::
  "'w host \<Rightarrow> (progressEvent \<Rightarrow> 'w \<Rightarrow> unit outcome \<times> 'w) option \<Rightarrow> string \<Rightarrow> string
     \<Rightarrow> testScenario \<Rightarrow> (unit, 'w) promise" where
  \<open>setupPhase H onProgress containerId commandName scenario =
     (case scenario_setup scenario of
        None \<Rightarrow> resolve ()
      | Some su \<Rightarrow>
          await (notify onProgress
                   \<lparr> stage = TESTING_COMMAND,
                     event_message = ''Setting up scenario: '' @ scenario_name scenario,
                     currentCommand = Some commandName \<rparr>)
            (\<lambda>_. setupScenario H containerId (Some su)))\<close>

definition fullCommand :: "testScenario \<Rightarrow> string list" where
  "fullCommand scenario =
     scenario_command scenario # (case scenario_args scenario of Some as \<Rightarrow> as | None \<Rightarrow> [])"

definition invokePhase ::
  "'w host \<Rightarrow> (progressEvent \<Rightarrow> 'w \<Rightarrow> unit outcome \<times> 'w) option \<Rightarrow> string \<Rightarrow> string
     \<Rightarrow> testScenario \<Rightarrow> (execResult, 'w) promise" where
  \<open>invokePhase H onProgress containerId commandName scenario =
     await (notify onProgress
              \<lparr> stage = TESTING_COMMAND,
                event_message = ''Running scenario: '' @ scenario_name scenario,
                currentCommand = Some commandName \<rparr>)
       (\<lambda>_. dockerManager_executeCommand H containerId (fullCommand scenario))\<close>

text \<open>
  The record the \<^verbatim>\<open>catch\<close> block builds, given what reading \<^verbatim>\<open>message\<close> of the
  caught value gave.
\<close>

definition failedResult :: "cliCommand \<Rightarrow> string \<Rightarrow> int \<Rightarrow> string option \<Rightarrow> commandTestResult" where
  "failedResult command nodeVersion duration msg =
     \<lparr> result_command = command,
       result_nodeVersion = nodeVersion,
       result_passed = False,
       result_duration = duration,
       result_exitCode = 1,
       result_stdout = [],
       result_stderr = msg,
       result_error = msg,
       hasHelpOutput = False,
       hasVersionOutput = False \<rparr>"

definition runScenario ::
  "'w host \<Rightarrow> (progressEvent \<Rightarrow> 'w \<Rightarrow> unit outcome \<times> 'w) option \<Rightarrow> string \<Rightarrow> string \<Rightarrow> string
     \<Rightarrow> testScenario \<Rightarrow> string \<Rightarrow> cliCommand \<Rightarrow> (commandTestResult, 'w) promise" where
  "runScenario H onProgress containerId packageName commandName scenario nodeVersion command =
     await (dateNow H) (\<lambda>startTime.
       tryCatch
         (await (setupPhase H onProgress containerId commandName scenario) (\<lambda>_.
          await (invokePhase H onProgress containerId commandName scenario) (\<lambda>result.
          await (validateScenario H containerId scenario result) (\<lambda>validationResult.
          await (dateNow H) (\<lambda>endTime.
            resolve \<lparr> result_command = command,
                      result_nodeVersion = nodeVersion,
                      result_passed = passed validationResult,
                      result_duration = endTime - startTime,
                      result_exitCode = exitCode result,
                      result_stdout = stdout result,
                      result_stderr = Some (stderr result),
                      result_error = error validationResult,
                      hasHelpOutput = False,
                      hasVersionOutput = False \<rparr>)))))
         (\<lambda>err. await (dateNow H) (\<lambda>endTime.
            case readMessage err of
              Inl typeError \<Rightarrow> reject typeError
            | Inr msg \<Rightarrow> resolve (failedResult command nodeVersion (endTime - startTime) msg))))"

section \<open>What the specification says, in its own words\<close>

text \<open>
  The text of one channel, as the specification describes the framing: byte 0 of a chunk
  is the channel tag, bytes 8 and onwards are the payload, a chunk shorter than 8 bytes
  has no payload, and the payloads of a channel are put together in arrival order.
\<close>

definition channelText :: "(byte list \<Rightarrow> string) \<Rightarrow> byte \<Rightarrow> byte list list \<Rightarrow> string" where
  "channelText decode tag chunks =
     concat (map (\<lambda>c. decode (drop 8 c)) (filter (\<lambda>c. 8 \<le> length c \<and> c ! 0 = tag) chunks))"

text \<open>A chunk that has a tag byte, and the tag is neither 1 nor 2.\<close>

fun unknownChannel :: "byte list \<Rightarrow> bool" where
  "unknownChannel [] = False"
| "unknownChannel (t # _) = (t \<noteq> 1 \<and> t \<noteq> 2)"

definition dropUnknown :: "streamEvent list \<Rightarrow> streamEvent list" where
  "dropUnknown evs = filter (\<lambda>ev. case ev of Data c \<Rightarrow> \<not> unknownChannel c | _ \<Rightarrow> True) evs"

text \<open>
  The parent directory of a file: its path up to the last slash, the slash left out.
\<close>

definition parentDirectory :: "string \<Rightarrow> string" where
  "parentDirectory p = rev (tl (dropWhile (\<lambda>c. c \<noteq> CHR ''/'') (rev p)))"

text \<open>
  The calls of provisioning, in the order the specification fixes: every declared
  directory; for every declared file its parent directory, unless that is the working
  root, and then the file; the project initialisation if requested; one installation of
  all the dependencies together. A step whose field is absent adds no call.
\<close>

definition filePlan :: "string \<Rightarrow> testFile \<Rightarrow> call list" where
  \<open>filePlan containerId file =
     (let filePath = ''/test/'' @ file_path file
      in (if parentDirectory filePath \<noteq> ''/test''
          then [CreateDirectory containerId (parentDirectory filePath)] else [])
         @ [CreateFile containerId filePath (file_content file)])\<close>

definition setupPlan :: "string \<Rightarrow> testSetup \<Rightarrow> call list" where
  \<open>setupPlan containerId su =
     (case directories su of
        None \<Rightarrow> []
      | Some dirs \<Rightarrow> map (\<lambda>dir. CreateDirectory containerId (''/test/'' @ dir)) dirs)
     @ (case files su of
          None \<Rightarrow> []
        | Some fs \<Rightarrow> concat (map (filePlan containerId) fs))
     @ (if initNpm su = Some True
        then [ExecuteCommand containerId [''sh'', ''-c'', ''cd /test && npm init -y'']] else [])
     @ (case dependencies su of
          None \<Rightarrow> []
        | Some deps \<Rightarrow>
            if deps = [] then []
            else [ExecuteCommand containerId
                    [''sh'', ''-c'', ''cd /test && npm install '' @ join '' '' deps]])\<close>

text \<open>
  The queries of validation, in order: one existence query for each path of
  \<^verbatim>\<open>filesExist\<close>, one for each path of \<^verbatim>\<open>filesNotExist\<close>, one read for each entry
  of \<^verbatim>\<open>fileContents\<close>.
\<close>

definition validationPlan :: "string \<Rightarrow> testValidation \<Rightarrow> call list" where
  \<open>validationPlan containerId validation =
     (case filesExist validation of
        None \<Rightarrow> []
      | Some paths \<Rightarrow> map (\<lambda>p. FileExists containerId (''/test/'' @ p)) paths)
     @ (case filesNotExist validation of
          None \<Rightarrow> []
        | Some paths \<Rightarrow> map (\<lambda>p. FileExists containerId (''/test/'' @ p)) paths)
     @ (case fileContents validation of
          None \<Rightarrow> []
        | Some fileChecks \<Rightarrow> map (\<lambda>fc. ReadFile containerId (''/test/'' @ check_path fc)) fileChecks)\<close>

text \<open>
  One step of a plan: the call is made on the host, and what it resolves with is dropped.
  Running a plan is making its calls one after the other, up to the first that does not
  resolve. (The plans of provisioning and validation hold no progress event; as a step,
  one is recorded and resolves.)
\<close>

fun attempt :: "'w host \<Rightarrow> call \<Rightarrow> (unit, 'w) promise" where
  "attempt H (CreateDirectory containerId p) = dockerManager_createDirectory H containerId p"
| "attempt H (CreateFile containerId p content) = dockerManager_createFile H containerId p content"
| "attempt H (ExecuteCommand containerId argv) =
     await (dockerManager_executeCommand H containerId argv) (\<lambda>_. resolve ())"
| "attempt H (FileExists containerId p) =
     await (dockerManager_fileExists H containerId p) (\<lambda>_. resolve ())"
| "attempt H (ReadFile containerId p) =
     await (dockerManager_readFile H containerId p) (\<lambda>_. resolve ())"
| "attempt H (Progress event) = perform (Progress event) (\<lambda>w. (Resolved (), w))"

definition runCalls :: "'w host \<Rightarrow> call list \<Rightarrow> (unit, 'w) promise" where
  "runCalls H plan = forEach (attempt H) plan"

subsection \<open>Runs\<close>

text \<open>
  A thrown value is nullish when it is null or undefined. A step of a scenario run has
  rejected with \<open>e\<close>, leaving the state \<open>st'\<close>, when the setup phase did, or the setup
  phase resolved and the invocation did, or both resolved and the validation did.
\<close>

fun nullish :: "exn \<Rightarrow> bool" where
  "nullish Null = True"
| "nullish Undefined = True"
| "nullish (Error m) = False"
| "nullish Messageless = False"

definition stepRejected ::
  "'w host \<Rightarrow> (progressEvent \<Rightarrow> 'w \<Rightarrow> unit outcome \<times> 'w) option \<Rightarrow> string \<Rightarrow> string
     \<Rightarrow> testScenario \<Rightarrow> 'w state \<Rightarrow> exn \<Rightarrow> 'w state \<Rightarrow> bool" where
  "stepRejected H onProgress containerId commandName scenario st e st' =
     (setupPhase H onProgress containerId commandName scenario st = (Rejected e, st')
      \<or> (\<exists>st1. setupPhase H onProgress containerId commandName scenario st = (Resolved (), st1)
            \<and> (invokePhase H onProgress containerId commandName scenario st1 = (Rejected e, st')
                 \<or> (\<exists>result st2.
                       invokePhase H onProgress containerId commandName scenario st1
                         = (Resolved result, st2)
                       \<and> validateScenario H containerId scenario result st2 = (Rejected e, st')))))"

text \<open>
  A promise performs a plan when the calls it makes are the calls of the plan, in order,
  as far as it gets: all of them when it resolves, a first part of them when it stops.
\<close>

definition performs :: "('a, 'w) promise \<Rightarrow> call list \<Rightarrow> bool" where
  "performs m plan =
     (\<forall>st r st'. m st = (r, st') \<longrightarrow>
        (\<exists>made. calls st' = calls st @ made \<and> prefix made plan
                \<and> ((\<exists>x. r = Resolved x) \<longrightarrow> made = plan)))"

text \<open>A promise settles when it is never left pending; a host settles when its calls do.\<close>

definition settles :: "('a, 'w) promise \<Rightarrow> bool" where
  "settles m = (\<forall>st. fst (m st) \<noteq> Pending)"

definition hostSettles :: "'w host \<Rightarrow> (progressEvent \<Rightarrow> 'w \<Rightarrow> unit outcome \<times> 'w) option \<Rightarrow> bool" where
  "hostSettles H onProgress =
     ((\<forall>containerId p w. fst (dm_createDirectory H containerId p w) \<noteq> Pending)
      \<and> (\<forall>containerId p content w. fst (dm_createFile H containerId p content w) \<noteq> Pending)
      \<and> (\<forall>containerId argv w. fst (dm_executeCommand H containerId argv w) \<noteq> Pending)
      \<and> (\<forall>containerId p w. fst (dm_fileExists H containerId p w) \<noteq> Pending)
      \<and> (\<forall>containerId p w. fst (dm_readFile H containerId p w) \<noteq> Pending)
      \<and> (\<forall>callback event w. onProgress = Some callback \<longrightarrow> fst (callback event w) \<noteq> Pending))"

subsection \<open>Matchers and messages\<close>

text \<open>
  A matcher holds of a text: literal text by containment, a pattern by its test. The
  message of each kind of check names the matcher.
\<close>

fun matches :: "matcher \<Rightarrow> string \<Rightarrow> bool" where
  "matches (Text t) s = str_includes s t"
| "matches (Pattern printed test) s = test s"

fun stdoutMessage :: "matcher \<Rightarrow> string" where
  \<open>stdoutMessage (Text t) = ''Stdout missing expected text: "'' @ t @ ''"''\<close>
| \<open>stdoutMessage (Pattern printed test) = ''Stdout doesn't match pattern: '' @ printed\<close>

fun stderrMessage :: "matcher \<Rightarrow> string" where
  \<open>stderrMessage (Text t) = ''Stderr missing expected text: "'' @ t @ ''"''\<close>
| \<open>stderrMessage (Pattern printed test) = ''Stderr doesn't match pattern: '' @ printed\<close>

fun missingMessage :: "string \<Rightarrow> matcher \<Rightarrow> string" where
  \<open>missingMessage path (Text t) = ''File '' @ path @ '' missing expected text: "'' @ t @ ''"''\<close>
| \<open>missingMessage path (Pattern printed test) = ''File '' @ path @ '' doesn't match pattern: '' @ printed\<close>

fun unexpectedMessage :: "string \<Rightarrow> matcher \<Rightarrow> string" where
  \<open>unexpectedMessage path (Text t) = ''File '' @ path @ '' contains unexpected text: "'' @ t @ ''"''\<close>
| \<open>unexpectedMessage path (Pattern printed test) = ''File '' @ path @ '' matches unexpected pattern: '' @ printed\<close>

text \<open>The state after further calls have been recorded.\<close>

definition logged :: "call list \<Rightarrow> 'w state \<Rightarrow> 'w state" where
  "logged cs st = st\<lparr> calls := calls st @ cs \<rparr>"

section \<open>Concrete inputs\<close>

text \<open>
  A decoder for the examples: each byte is the code unit of the same number, which is
  what UTF-8 decoding gives on ASCII.
\<close>

definition latin1 :: "byte list \<Rightarrow> string" where
  "latin1 bs = map (\<lambda>b. char_of (unat b)) bs"

text \<open>
  A stream with a chunk for each channel, one with tag 3, one of three bytes, one of
  exactly eight bytes, and a second chunk for standard output.
\<close>

definition demoChunks :: "byte list list" where
  "demoChunks =
     [[1, 0, 0, 0, 0, 0, 0, 3, 0x20, 0x68, 0x69],
      [2, 0, 0, 0, 0, 0, 0, 2, 0x6F, 0x0A],
      [3, 0, 0, 0, 0, 0, 0, 1, 0x3F],
      [1, 0, 0],
      [1, 0, 0, 0, 0, 0, 0, 0],
      [1, 0, 0, 0, 0, 0, 0, 1, 0x21]]"

definition demoSession :: "int option \<Rightarrow> execSession" where
  "demoSession code =
     \<lparr> execCreated = Resolved (),
       execStarted = Resolved (),
       streamEvents = map Data demoChunks @ [End],
       inspectExitCode = Resolved code \<rparr>"

text \<open>
  A host with fixed answers and no world of its own, as a test would stub it: directory
  and file creation succeed, a command has the outcome \<open>exec\<close> gives for its argv, a path
  exists when \<open>present\<close> says so, and reading a path has the outcome \<open>content\<close> gives.
\<close>

definition stubHost ::
  "(string list \<Rightarrow> execResult outcome) \<Rightarrow> (string \<Rightarrow> bool) \<Rightarrow> (string \<Rightarrow> string outcome) \<Rightarrow> unit host" where
  "stubHost exec present content =
     \<lparr> dm_createDirectory = (\<lambda>_ _ w. (Resolved (), w)),
       dm_createFile = (\<lambda>_ _ _ w. (Resolved (), w)),
       dm_executeCommand = (\<lambda>_ argv w. (exec argv, w)),
       dm_fileExists = (\<lambda>_ p w. (Resolved (present p), w)),
       dm_readFile = (\<lambda>_ p w. (content p, w)),
       date_now = (\<lambda>_. 0) \<rparr>"

definition start :: "unit state" where
  "start = \<lparr> world = (), calls = [] \<rparr>"

definition noChecks :: testValidation where
  "noChecks = \<lparr> expect_exitCode = None, expect_stdout = None, expect_stderr = None,
                 filesExist = None, filesNotExist = None, fileContents = None \<rparr>"

definition cli :: cliCommand where
  \<open>cli = \<lparr> command_name = ''test-cli'', command_path = ''./cli.js'', command_type = PRIMARY \<rparr>\<close>

definition exited :: "int \<Rightarrow> string \<Rightarrow> execResult" where
  "exited code out = \<lparr> exitCode = code, stdout = out, stderr = [] \<rparr>"

definition quietHost :: "unit host" where
  \<open>quietHost = stubHost (\<lambda>argv. Resolved (exited 0 [])) (\<lambda>p. False)
                 (\<lambda>p. Rejected (Error ''No such file or directory''))\<close>

definition demoSetup :: testSetup where
  \<open>demoSetup =
     \<lparr> files = Some [\<lparr> file_path = ''src/index.js'', file_content = ''module.exports = 1'' \<rparr>,
                     \<lparr> file_path = ''README.md'', file_content = ''demo'' \<rparr>],
       directories = Some [''dist'', ''logs/old''],
       dependencies = Some [''left-pad'', ''chalk''],
       initNpm = Some True \<rparr>\<close>

definition demoSetupCalls :: "call list" where
  \<open>demoSetupCalls =
     [CreateDirectory ''c1'' ''/test/dist'',
      CreateDirectory ''c1'' ''/test/logs/old'',
      CreateDirectory ''c1'' ''/test/src'',
      CreateFile ''c1'' ''/test/src/index.js'' ''module.exports = 1'',
      CreateFile ''c1'' ''/test/README.md'' ''demo'',
      ExecuteCommand ''c1'' [''sh'', ''-c'', ''cd /test && npm init -y''],
      ExecuteCommand ''c1'' [''sh'', ''-c'', ''cd /test && npm install left-pad chalk'']]\<close>

text \<open>A host on which installation fails, and a scenario with a setup block.\<close>

definition installFails :: "unit host" where
  \<open>installFails =
     stubHost (\<lambda>argv. case argv of
                  [shell, flag, script] \<Rightarrow>
                    if take 24 script = ''cd /test && npm install ''
                    then Rejected (Error ''npm install failed'')
                    else Resolved (exited 0 [])
                | _ \<Rightarrow> Resolved (exited 0 []))
       (\<lambda>p. False) (\<lambda>p. Rejected (Error ''No such file or directory''))\<close>

definition demoScenario :: testScenario where
  \<open>demoScenario =
     \<lparr> scenario_name = ''demo'', description = None,
       scenario_setup = Some demoSetup,
       scenario_command = ''test-cli'', scenario_args = Some [''--version''],
       validate = noChecks \<rparr>\<close>

text \<open>The passing scenario of the specification (P6), and a host whose container is gone.\<close>

definition echoScenario :: testScenario where
  \<open>echoScenario =
     \<lparr> scenario_name = ''echo'', description = None, scenario_setup = None,
       scenario_command = ''echo'', scenario_args = Some [''hi''],
       validate = noChecks \<lparr> expect_exitCode := Some 0, expect_stdout := Some [Text ''hi''] \<rparr> \<rparr>\<close>

definition undefinedHost :: "unit host" where
  \<open>undefinedHost =
     stubHost (\<lambda>argv. Rejected Undefined) (\<lambda>p. False) (\<lambda>p. Rejected Undefined)\<close>

definition unreachableHost :: "unit host" where
  \<open>unreachableHost =
     stubHost (\<lambda>argv. Rejected (Error ''container not running'')) (\<lambda>p. False)
       (\<lambda>p. Rejected (Error ''container not running''))\<close>

text \<open>
  Inputs for validation. The scenario of P2, with matchers and paths that hold beside the
  three that fail; the file of P4; the failing scenario of P7.
\<close>

definition threeFailures :: testScenario where
  \<open>threeFailures =
     \<lparr> scenario_name = ''three failures'', description = None, scenario_setup = None,
       scenario_command = ''build'', scenario_args = None,
       validate =
         \<lparr> expect_exitCode = Some 0,
           expect_stdout = Some [Text ''ok'', Text ''done''],
           expect_stderr = Some [Pattern ''/^$/'' (\<lambda>s. s = [])],
           filesExist = Some [''in.txt'', ''out.txt''],
           filesNotExist = Some [''tmp.txt''],
           fileContents = Some [\<lparr> check_path = ''in.txt'', contains = Some [Text ''hell''],
                                  notContains = Some [Text ''error''], equals = Some ''hello'' \<rparr>] \<rparr> \<rparr>\<close>

definition helloPresent :: "string \<Rightarrow> bool" where
  \<open>helloPresent p = (p = ''/test/in.txt'')\<close>

definition helloContent :: "string \<Rightarrow> string outcome" where
  \<open>helloContent p =
     (if p = ''/test/in.txt'' then Resolved (''hello'' @ [CHR 0x0A])
      else Rejected (Error ''No such file or directory''))\<close>

definition helloHost :: "unit host" where
  \<open>helloHost = stubHost (\<lambda>argv. Resolved (exited 2 ''ok'')) helloPresent helloContent\<close>

definition checkOf ::
  "string option \<Rightarrow> matcher list option \<Rightarrow> matcher list option \<Rightarrow> fileContentValidation" where
  \<open>checkOf eq has hasNot =
     \<lparr> check_path = ''in.txt'', contains = has, notContains = hasNot, equals = eq \<rparr>\<close>

definition scenarioFalse :: testScenario where
  \<open>scenarioFalse =
     \<lparr> scenario_name = ''fails'', description = None, scenario_setup = None,
       scenario_command = ''false'', scenario_args = None,
       validate = noChecks \<lparr> expect_exitCode := Some 0, filesExist := Some [''out.txt''] \<rparr> \<rparr>\<close>

definition emptyValidate :: testScenario where
  \<open>emptyValidate =
     \<lparr> scenario_name = ''defaults'', description = None, scenario_setup = None,
       scenario_command = ''true'', scenario_args = None, validate = noChecks \<rparr>\<close>

section \<open>Properties of DockerManager.executeCommand\<close>

lemma collectOutput_data_end:
  "collectOutput decode (map Data chunks @ End # rest) acc
     = Resolved (foldl (\<lambda>a c. onData decode c a) acc chunks)"
  by (induction chunks arbitrary: acc) simp_all

lemma onData_channels:
  assumes "decode [] = []"
  shows "onData decode c (out, err)
     = (out @ channelText decode 1 [c], err @ channelText decode 2 [c])"
proof (cases "length c > 8")
  case True
  then show ?thesis by (simp add: onData_def channelText_def Let_def)
next
  case False
  then show ?thesis using assms
    by (cases "length c = 8") (simp_all add: onData_def channelText_def)
qed

lemma channelText_Cons:
  "channelText decode t (c # cs) = channelText decode t [c] @ channelText decode t cs"
  by (simp add: channelText_def)

lemma foldl_onData:
  assumes "decode [] = []"
  shows "foldl (\<lambda>a c. onData decode c a) (out, err) chunks
     = (out @ channelText decode 1 chunks, err @ channelText decode 2 chunks)"
proof (induction chunks arbitrary: out err)
  case Nil
  show ?case by (simp add: channelText_def)
next
  case (Cons c cs)
  show ?case
    using assms by (simp add: onData_channels Cons.IH channelText_Cons [of decode _ c cs])
qed

text \<open>
  C4. When the exec is created and started, the stream emits the chunks and then ends, and
  the inspection resolves, \<open>executeCommand\<close> resolves with the two channels rebuilt as the
  specification says: standard output is the decoded payloads (bytes 8 onwards) of the
  chunks tagged 1, in arrival order, standard error those of the chunks tagged 2, a chunk
  shorter than 8 bytes adds nothing, and both texts are trimmed. The decoder is the
  runtime's; all that is asked of it is that no bytes decode to the empty text.
\<close>

theorem executeCommand_demultiplexes:
  assumes "execCreated session = Resolved ()"
    and "execStarted session = Resolved ()"
    and "streamEvents session = map Data chunks @ End # rest"
    and "inspectExitCode session = Resolved code"
    and "decode [] = []"
  shows "executeCommand decode session
     = Resolved \<lparr> exitCode = (case code of Some n \<Rightarrow> n | None \<Rightarrow> 0),
                  stdout = trim (channelText decode 1 chunks),
                  stderr = trim (channelText decode 2 chunks) \<rparr>"
  using assms
  by (simp add: executeCommand_def collectOutput_data_end foldl_onData)

theorem executeCommand_demultiplexes_witness:
  "execCreated (demoSession (Some 7)) = Resolved ()
   \<and> execStarted (demoSession (Some 7)) = Resolved ()
   \<and> streamEvents (demoSession (Some 7)) = map Data demoChunks @ End # []
   \<and> inspectExitCode (demoSession (Some 7)) = Resolved (Some 7)
   \<and> latin1 [] = []
   \<and> executeCommand latin1 (demoSession (Some 7))
       = Resolved \<lparr> exitCode = 7, stdout = ''hi!'', stderr = ''o'' \<rparr>"
proof -
  have h1: "execCreated (demoSession (Some 7)) = Resolved ()"
    and h2: "execStarted (demoSession (Some 7)) = Resolved ()"
    and h3: "streamEvents (demoSession (Some 7)) = map Data demoChunks @ End # []"
    and h4: "inspectExitCode (demoSession (Some 7)) = Resolved (Some 7)"
    by (simp_all add: demoSession_def)
  have h5: "latin1 [] = []"
    by (simp add: latin1_def)
  have out: "trim (channelText latin1 1 demoChunks) = ''hi!''"
    by code_simp
  have err: "trim (channelText latin1 2 demoChunks) = ''o''"
    by code_simp
  show ?thesis
    using executeCommand_demultiplexes [where decode = latin1, OF h1 h2 h3 h4 h5] h1 h2 h3 h4 h5 out err
    by simp
qed

lemma onData_unknown: "unknownChannel c \<Longrightarrow> onData decode c acc = acc"
  by (cases c) (auto simp: onData_def Let_def split: prod.splits)

lemma collectOutput_dropUnknown:
  "collectOutput decode (dropUnknown evs) acc = collectOutput decode evs acc"
proof (induction evs arbitrary: acc)
  case Nil
  show ?case by (simp add: dropUnknown_def)
next
  case (Cons ev evs)
  then show ?case
    by (cases ev) (auto simp: dropUnknown_def onData_unknown)
qed

text \<open>
  C9. A chunk whose tag byte is neither 1 nor 2 changes neither buffer, and taking every
  such chunk out of the stream leaves the outcome of \<open>executeCommand\<close> as it is: nothing
  of an unknown channel reaches the returned output.
\<close>

theorem executeCommand_discards_unknown_channels:
  "(unknownChannel c \<longrightarrow> onData decode c (out, err) = (out, err))
   \<and> executeCommand decode (session\<lparr>streamEvents := dropUnknown (streamEvents session)\<rparr>)
       = executeCommand decode session"
  by (simp add: onData_unknown executeCommand_def collectOutput_dropUnknown split: outcome.splits)

theorem executeCommand_discards_unknown_channels_witness:
  "unknownChannel [3, 0, 0, 0, 0, 0, 0, 1, 0x3F]
   \<and> onData latin1 [3, 0, 0, 0, 0, 0, 0, 1, 0x3F] (''out'', ''err'') = (''out'', ''err'')
   \<and> executeCommand latin1
        ((demoSession None)\<lparr>streamEvents := dropUnknown (streamEvents (demoSession None))\<rparr>)
       = executeCommand latin1 (demoSession None)"
proof -
  have h: "unknownChannel [3, 0, 0, 0, 0, 0, 0, 1, 0x3F]"
    by simp
  show ?thesis
    using executeCommand_discards_unknown_channels
            [of "[3, 0, 0, 0, 0, 0, 0, 1, 0x3F]" latin1 "''out''" "''err''" "demoSession None"] h
    by simp
qed

text \<open>
  C10. When the exec is created and started, the stream ends, and the inspection resolves
  without an exit code (\<^verbatim>\<open>ExitCode\<close> null or missing), \<open>executeCommand\<close> resolves with
  exit code 0.
\<close>

theorem executeCommand_absent_exit_code:
  assumes "execCreated session = Resolved ()"
    and "execStarted session = Resolved ()"
    and "collectOutput decode (streamEvents session) ([], []) = Resolved (out, err)"
    and "inspectExitCode session = Resolved None"
  shows "executeCommand decode session
     = Resolved \<lparr> exitCode = 0, stdout = trim out, stderr = trim err \<rparr>"
  using assms by (simp add: executeCommand_def)

theorem executeCommand_absent_exit_code_witness:
  "execCreated (demoSession None) = Resolved ()
   \<and> execStarted (demoSession None) = Resolved ()
   \<and> collectOutput latin1 (streamEvents (demoSession None)) ([], []) = Resolved ('' hi!'', [CHR ''o'', CHR 0x0A])
   \<and> inspectExitCode (demoSession None) = Resolved None
   \<and> executeCommand latin1 (demoSession None)
       = Resolved \<lparr> exitCode = 0, stdout = ''hi!'', stderr = ''o'' \<rparr>"
proof -
  have h1: "execCreated (demoSession None) = Resolved ()"
    and h2: "execStarted (demoSession None) = Resolved ()"
    and h4: "inspectExitCode (demoSession None) = Resolved None"
    by (simp_all add: demoSession_def)
  have h3: "collectOutput latin1 (streamEvents (demoSession None)) ([], [])
      = Resolved ('' hi!'', [CHR ''o'', CHR 0x0A])"
    by code_simp
  have out: "trim '' hi!'' = ''hi!''" and err: "trim [CHR ''o'', CHR 0x0A] = ''o''"
    by code_simp+
  show ?thesis
    using executeCommand_absent_exit_code [OF h1 h2 h3 h4] h1 h2 h3 h4 out err
    by simp
qed

section \<open>Promises: resolving, performing, settling\<close>

lemma await_resolve [simp]: "await (resolve x) k = k x"
  by (rule ext) (simp add: await_def resolve_def)

lemma await_cases:
  assumes "await m k st = (r, st')"
  obtains (resolved) x st1 where "m st = (Resolved x, st1)" "k x st1 = (r, st')"
        | (rejected) e where "m st = (Rejected e, st')" "r = Rejected e"
        | (pending) "m st = (Pending, st')" "r = Pending"
  using assms by (auto simp: await_def split: prod.splits outcome.splits)

lemma await_Resolved:
  "m st = (Resolved x, st1) \<Longrightarrow> await m k st = k x st1"
  by (simp add: await_def)

lemma await_Rejected: "m st = (Rejected e, st') \<Longrightarrow> await m k st = (Rejected e, st')"
  by (simp add: await_def)

lemma await_assoc: "await (await m k) k' = await m (\<lambda>x. await (k x) k')"
  by (rule ext) (simp add: await_def split: prod.splits outcome.splits)

lemma await_done [simp]: "await m resolve = m"
  by (rule ext) (simp add: await_def resolve_def split: prod.splits outcome.splits)

lemma await_done_unit [simp]: "await m (\<lambda>_. resolve ()) = m"
  by (rule ext) (simp add: await_def resolve_def split: prod.splits outcome.splits)

lemma forEach_append:
  "forEach body (xs @ ys) = await (forEach body xs) (\<lambda>_. forEach body ys)"
  by (induction xs) (simp_all add: await_assoc)

lemma forEach_map: "forEach body (map g xs) = forEach (\<lambda>x. body (g x)) xs"
  by (induction xs) simp_all

lemma forEach_concat_map:
  "forEach body (concat (map g xs)) = forEach (\<lambda>x. forEach body (g x)) xs"
  by (induction xs) (simp_all add: forEach_append)

lemma performsD:
  assumes "performs m plan" and "m st = (r, st')"
  shows "\<exists>made. calls st' = calls st @ made \<and> prefix made plan
           \<and> ((\<exists>x. r = Resolved x) \<longrightarrow> made = plan)"
  using assms unfolding performs_def by blast

lemma performs_resolve: "performs (resolve x) []"
  by (simp add: performs_def resolve_def)

lemma performs_perform: "performs (perform c op) [c]"
  by (auto simp: performs_def perform_def split: prod.splits)

lemma performs_await:
  assumes m: "performs m p" and k: "\<And>x. performs (k x) q"
  shows "performs (await m k) (p @ q)"
  unfolding performs_def
proof (intro allI impI)
  fix st r st'
  assume run: "await m k st = (r, st')"
  from run show "\<exists>made. calls st' = calls st @ made \<and> prefix made (p @ q)
                   \<and> ((\<exists>x. r = Resolved x) \<longrightarrow> made = p @ q)"
  proof (cases rule: await_cases)
    case (resolved x st1)
    from performsD [OF m resolved(1)] have c1: "calls st1 = calls st @ p"
      by blast
    from performsD [OF k resolved(2)] obtain made where
      c2: "calls st' = calls st1 @ made" "prefix made q" "(\<exists>y. r = Resolved y) \<longrightarrow> made = q"
      by blast
    show ?thesis
      using c1 c2 by (intro exI [of _ "p @ made"]) auto
  next
    case (rejected e)
    from performsD [OF m rejected(1)] obtain made where "calls st' = calls st @ made" "prefix made p"
      by blast
    then show ?thesis
      using rejected(2) by (intro exI [of _ made]) (auto simp: prefix_def)
  next
    case pending
    from performsD [OF m pending(1)] obtain made where "calls st' = calls st @ made" "prefix made p"
      by blast
    then show ?thesis
      using pending(2) by (intro exI [of _ made]) (auto simp: prefix_def)
  qed
qed

lemma performs_forEach:
  assumes "\<And>x. performs (body x) (plan x)"
  shows "performs (forEach body xs) (concat (map plan xs))"
proof (induction xs)
  case Nil
  show ?case by (simp add: performs_resolve)
next
  case (Cons x xs)
  show ?case
    using performs_await [OF assms [of x], of "\<lambda>_. forEach body xs", OF Cons.IH]
    by simp
qed

lemma settles_resolve: "settles (resolve x)"
  by (simp add: settles_def resolve_def)

lemma settles_reject: "settles (reject e)"
  by (simp add: settles_def reject_def)

lemma settles_handler:
  "settles (case readMessage e of Inl typeError \<Rightarrow> reject typeError | Inr msg \<Rightarrow> resolve (f msg))"
  by (cases "readMessage e") (simp_all add: settles_resolve settles_reject)

lemma settles_perform: "(\<And>w. fst (op w) \<noteq> Pending) \<Longrightarrow> settles (perform c op)"
  by (auto simp: settles_def perform_def split: prod.splits) (metis fst_conv)

lemma settles_await:
  assumes "settles m" and "\<And>x. settles (k x)"
  shows "settles (await m k)"
  using assms
  by (auto simp: settles_def await_def split: prod.splits outcome.splits) (metis fst_conv)+

lemma settles_tryCatch:
  assumes "settles body" and "\<And>e. settles (handler e)"
  shows "settles (tryCatch body handler)"
  using assms
  by (auto simp: settles_def tryCatch_def split: prod.splits outcome.splits) (metis fst_conv)+

lemma settles_forEach: "(\<And>x. settles (body x)) \<Longrightarrow> settles (forEach body xs)"
  by (induction xs) (simp_all add: settles_resolve settles_await)

lemma settles_collectEach: "(\<And>x. settles (body x)) \<Longrightarrow> settles (collectEach body xs)"
  by (induction xs) (simp_all add: settles_resolve settles_await)

lemma settles_dateNow: "settles (dateNow H)"
  by (simp add: settles_def dateNow_def)

lemma settles_notify: "hostSettles H onProgress \<Longrightarrow> settles (notify onProgress event)"
  by (cases onProgress) (simp_all add: settles_resolve settles_perform hostSettles_def)

lemma settles_host:
  assumes "hostSettles H onProgress"
  shows "settles (dockerManager_createDirectory H cid p)"
    and "settles (dockerManager_createFile H cid p content)"
    and "settles (dockerManager_executeCommand H cid argv)"
    and "settles (dockerManager_fileExists H cid p)"
    and "settles (dockerManager_readFile H cid p)"
  using assms
  by (simp_all add: hostSettles_def settles_perform dockerManager_createDirectory_def
      dockerManager_createFile_def dockerManager_executeCommand_def
      dockerManager_fileExists_def dockerManager_readFile_def)

section \<open>Properties of setupScenario\<close>

lemma lastIndexOf_parent:
  assumes "c \<in> set s"
  shows "substring0 s (lastIndexOf s c) = rev (tl (dropWhile (\<lambda>x. x \<noteq> c) (rev s)))"
proof -
  let ?P = "\<lambda>x. x \<noteq> c"
  let ?t = "takeWhile ?P (rev s)" and ?d = "dropWhile ?P (rev s)"
  have parts: "rev s = ?t @ ?d" by simp
  have ne: "?d \<noteq> []" using assms by (simp add: dropWhile_eq_Nil_conv)
  then obtain rest where d: "?d = hd ?d # rest" by (cases ?d) auto
  have len: "length s = length ?t + Suc (length rest)"
    using arg_cong [OF parts, of length] d
    by (metis length_Cons length_append length_rev)
  have s_eq: "s = rev rest @ hd ?d # rev ?t"
    using arg_cong [OF parts, of rev] d
    by (metis rev_append rev_rev_ident rev.simps(2) append.assoc append_Cons append_Nil)
  have "lastIndexOf s c = int (length rest)"
    using assms len by (simp add: lastIndexOf_def)
  then have "substring0 s (lastIndexOf s c) = take (length rest) s"
    by (simp add: substring0_def)
  also have "\<dots> = rev rest"
    by (subst s_eq) simp
  also have "rev rest = rev (tl ?d)"
    using d by (metis list.sel(3))
  finally show ?thesis .
qed

lemma createTestFile_performs: "performs (createTestFile H cid file) (filePlan cid file)"
proof -
  have slash: "CHR ''/'' \<in> set (''/test/'' @ file_path file)" by simp
  have parent: "substring0 (''/test/'' @ file_path file) (lastIndexOf (''/test/'' @ file_path file) (CHR ''/''))
      = parentDirectory (''/test/'' @ file_path file)"
    unfolding parentDirectory_def by (rule lastIndexOf_parent [OF slash])
  show ?thesis
    unfolding createTestFile_def filePlan_def Let_def parent
    by (intro performs_await)
       (auto simp: dockerManager_createDirectory_def dockerManager_createFile_def
          performs_perform performs_resolve)
qed

lemma setupScenario_performs: "performs (setupScenario H cid (Some su)) (setupPlan cid su)"
proof -
  have dirs: "performs (case directories su of None \<Rightarrow> resolve ()
      | Some dirs \<Rightarrow> forEach (\<lambda>dir. dockerManager_createDirectory H cid (''/test/'' @ dir)) dirs)
     (case directories su of None \<Rightarrow> []
      | Some dirs \<Rightarrow> map (\<lambda>dir. CreateDirectory cid (''/test/'' @ dir)) dirs)"
  proof (cases "directories su")
    case None
    then show ?thesis by (simp add: performs_resolve)
  next
    case (Some dirs)
    have "performs (forEach (\<lambda>dir. dockerManager_createDirectory H cid (''/test/'' @ dir)) dirs)
            (concat (map (\<lambda>dir. [CreateDirectory cid (''/test/'' @ dir)]) dirs))"
      by (rule performs_forEach) (simp add: dockerManager_createDirectory_def performs_perform)
    moreover have "concat (map (\<lambda>dir. [CreateDirectory cid (''/test/'' @ dir)]) dirs)
        = map (\<lambda>dir. CreateDirectory cid (''/test/'' @ dir)) dirs"
      by (induction dirs) simp_all
    ultimately show ?thesis using Some by simp
  qed
  have fs: "performs (case files su of None \<Rightarrow> resolve ()
      | Some fs \<Rightarrow> forEach (createTestFile H cid) fs)
     (case files su of None \<Rightarrow> [] | Some fs \<Rightarrow> concat (map (filePlan cid) fs))"
    by (cases "files su")
       (simp_all add: performs_resolve performs_forEach createTestFile_performs)
  have exec: "\<And>argv. performs (await (dockerManager_executeCommand H cid argv) (\<lambda>_. resolve ()))
                          [ExecuteCommand cid argv]"
    using performs_await [OF performs_perform, of "\<lambda>_. resolve ()" "[]"]
    by (simp add: dockerManager_executeCommand_def performs_resolve)
  have init: "performs (if initNpm su = Some True
         then await (dockerManager_executeCommand H cid npmInit) (\<lambda>_. resolve ())
         else resolve ())
      (if initNpm su = Some True
        then [ExecuteCommand cid [''sh'', ''-c'', ''cd /test && npm init -y'']] else [])"
    using exec [of npmInit] by (simp add: performs_resolve npmInit_def)
  have deps: "performs (case dependencies su of None \<Rightarrow> resolve ()
      | Some deps \<Rightarrow> if length deps > 0
           then await (dockerManager_executeCommand H cid (npmInstall deps)) (\<lambda>_. resolve ())
           else resolve ())
     (case dependencies su of None \<Rightarrow> []
        | Some deps \<Rightarrow> if deps = [] then []
            else [ExecuteCommand cid [''sh'', ''-c'', ''cd /test && npm install '' @ join '' '' deps]])"
    using exec by (cases "dependencies su") (simp_all add: performs_resolve npmInstall_def)
  show ?thesis
    unfolding setupScenario_def setupPlan_def option.case
    by (intro performs_await dirs fs init deps)
qed

lemma createTestFile_runs_plan: "createTestFile H cid file = runCalls H (filePlan cid file)"
proof -
  have slash: "CHR ''/'' \<in> set (''/test/'' @ file_path file)" by simp
  have parent: "substring0 (''/test/'' @ file_path file) (lastIndexOf (''/test/'' @ file_path file) (CHR ''/''))
      = parentDirectory (''/test/'' @ file_path file)"
    unfolding parentDirectory_def by (rule lastIndexOf_parent [OF slash])
  show ?thesis
    unfolding createTestFile_def filePlan_def Let_def parent runCalls_def
    by simp
qed

text \<open>
  Provisioning is running its plan: \<open>setupScenario\<close> makes the calls of the plan one after
  the other and stops, with the outcome of that call, at the first that does not resolve.
\<close>

lemma setupScenario_runs_plan: "setupScenario H cid (Some su) = runCalls H (setupPlan cid su)"
proof -
  have dirs: "(case directories su of None \<Rightarrow> resolve ()
      | Some dirs \<Rightarrow> forEach (\<lambda>dir. dockerManager_createDirectory H cid (''/test/'' @ dir)) dirs)
     = runCalls H (case directories su of None \<Rightarrow> []
      | Some dirs \<Rightarrow> map (\<lambda>dir. CreateDirectory cid (''/test/'' @ dir)) dirs)"
    by (cases "directories su") (simp_all add: runCalls_def forEach_map)
  have fs: "(case files su of None \<Rightarrow> resolve ()
      | Some fs \<Rightarrow> forEach (createTestFile H cid) fs)
     = runCalls H (case files su of None \<Rightarrow> [] | Some fs \<Rightarrow> concat (map (filePlan cid) fs))"
  proof -
    have "createTestFile H cid = (\<lambda>f. forEach (attempt H) (filePlan cid f))"
      by (rule ext) (simp add: createTestFile_runs_plan runCalls_def)
    then show ?thesis
      by (cases "files su") (simp_all add: runCalls_def forEach_concat_map)
  qed
  have init: "(if initNpm su = Some True
         then await (dockerManager_executeCommand H cid npmInit) (\<lambda>_. resolve ())
         else resolve ())
      = runCalls H (if initNpm su = Some True
        then [ExecuteCommand cid [''sh'', ''-c'', ''cd /test && npm init -y'']] else [])"
    by (simp add: runCalls_def npmInit_def)
  have deps: "(case dependencies su of None \<Rightarrow> resolve ()
      | Some deps \<Rightarrow> if length deps > 0
           then await (dockerManager_executeCommand H cid (npmInstall deps)) (\<lambda>_. resolve ())
           else resolve ())
     = runCalls H (case dependencies su of None \<Rightarrow> []
        | Some deps \<Rightarrow> if deps = [] then []
            else [ExecuteCommand cid [''sh'', ''-c'', ''cd /test && npm install '' @ join '' '' deps]])"
    by (cases "dependencies su") (simp_all add: runCalls_def npmInstall_def)
  show ?thesis
    unfolding setupScenario_def setupPlan_def option.case dirs fs init deps
    by (simp add: runCalls_def forEach_append)
qed

lemma runCalls_resolved_calls:
  "runCalls H plan st = (Resolved (), st') \<Longrightarrow> calls st' = calls st @ plan"
proof (induction plan arbitrary: st)
  case Nil
  then show ?case by (simp add: runCalls_def resolve_def)
next
  case (Cons c plan)
  from Cons.prems have run: "await (attempt H c) (\<lambda>_. forEach (attempt H) plan) st = (Resolved (), st')"
    by (simp add: runCalls_def)
  from run show ?case
  proof (cases rule: await_cases)
    case (resolved x st1)
    have "calls st1 = calls st @ [c]"
      using resolved(1)
      by (cases c)
         (auto simp: dockerManager_createDirectory_def dockerManager_createFile_def
            dockerManager_executeCommand_def dockerManager_fileExists_def
            dockerManager_readFile_def perform_def await_def resolve_def
            split: prod.splits outcome.splits)
    moreover have "calls st' = calls st1 @ plan"
      using Cons.IH [of st1] resolved(2) by (simp add: runCalls_def)
    ultimately show ?thesis by simp
  qed simp_all
qed

lemma attempt_makes_call:
  assumes "attempt H c st = (Rejected e, st')"
  shows "calls st' = calls st @ [c]"
  using assms
  by (cases c)
     (auto simp: dockerManager_createDirectory_def dockerManager_createFile_def
        dockerManager_executeCommand_def dockerManager_fileExists_def
        dockerManager_readFile_def perform_def await_def resolve_def
        split: prod.splits outcome.splits)

lemma runCalls_stops_at_rejection:
  assumes k: "k < length plan"
    and before: "runCalls H (take k plan) st = (Resolved (), st2)"
    and failing: "attempt H (plan ! k) st2 = (Rejected e, st')"
  shows "runCalls H plan st = (Rejected e, st')"
    and "calls st' = calls st @ take (Suc k) plan"
proof -
  have parts: "plan = take k plan @ plan ! k # drop (Suc k) plan"
    using k by (simp add: id_take_nth_drop)
  have "runCalls H plan st = runCalls H (take k plan @ plan ! k # drop (Suc k) plan) st"
    using parts by simp
  also have "\<dots> = await (attempt H (plan ! k)) (\<lambda>_. forEach (attempt H) (drop (Suc k) plan)) st2"
    using before by (simp add: runCalls_def forEach_append await_def)
  also have "\<dots> = (Rejected e, st')"
    using failing by (rule await_Rejected)
  finally show "runCalls H plan st = (Rejected e, st')" .
  have "calls st2 = calls st @ take k plan"
    using before by (rule runCalls_resolved_calls)
  moreover have "calls st' = calls st2 @ [plan ! k]"
    using failing by (rule attempt_makes_call)
  ultimately show "calls st' = calls st @ take (Suc k) plan"
    using k by (simp add: take_Suc_conv_app_nth)
qed

text \<open>
  C7. Whatever the host does, the calls \<open>setupScenario\<close> makes are the calls of the
  provisioning plan in the plan's order: the directories as declared, then for each file
  its parent directory (unless that is \<^verbatim>\<open>/test\<close>) and the file, then the project
  initialisation if requested, then one single installation command naming all the
  dependencies. When provisioning resolves it has made all of them; when a call rejects
  or stays pending it has made a first part of them and nothing else.
\<close>

theorem setupScenario_follows_plan:
  assumes "setupScenario H containerId (Some su) st = (r, st')"
  shows "\<exists>made. calls st' = calls st @ made
           \<and> prefix made (setupPlan containerId su)
           \<and> (r = Resolved () \<longrightarrow> made = setupPlan containerId su)"
  using performsD [OF setupScenario_performs assms] by auto

theorem setupScenario_follows_plan_witness:
  "setupScenario quietHost ''c1'' (Some demoSetup) start
     = (Resolved (), \<lparr> world = (), calls = demoSetupCalls \<rparr>)
   \<and> setupPlan ''c1'' demoSetup = demoSetupCalls"
proof -
  have run: "setupScenario quietHost ''c1'' (Some demoSetup) start
      = (Resolved (), \<lparr> world = (), calls = demoSetupCalls \<rparr>)"
    by code_simp
  from setupScenario_follows_plan [OF run]
  have "demoSetupCalls = setupPlan ''c1'' demoSetup"
    by (simp add: start_def)
  with run show ?thesis by simp
qed

section \<open>Properties of runScenario\<close>

lemma settles_setupScenario:
  assumes "hostSettles H onProgress"
  shows "settles (setupScenario H cid setup_opt)"
proof (cases setup_opt)
  case None
  then show ?thesis by (simp add: setupScenario_def settles_resolve)
next
  case (Some su)
  have tf: "\<And>f. settles (createTestFile H cid f)"
    unfolding createTestFile_def Let_def
    by (intro settles_await) (simp_all add: settles_host [OF assms] settles_resolve)
  show ?thesis
    unfolding setupScenario_def Some option.case
    by (intro settles_await)
       (auto simp: settles_resolve settles_forEach settles_host [OF assms] tf
          intro!: settles_await split: option.splits)
qed

lemma settles_validateScenario:
  assumes "hostSettles H onProgress"
  shows "settles (validateScenario H cid scenario result)"
proof -
  have 1: "\<And>p. settles (checkFileExists H cid p)"
    unfolding checkFileExists_def
    by (intro settles_await) (simp_all add: settles_host [OF assms] settles_resolve)
  have 2: "\<And>p. settles (checkFileNotExists H cid p)"
    unfolding checkFileNotExists_def
    by (intro settles_await) (simp_all add: settles_host [OF assms] settles_resolve)
  have 3: "\<And>fc. settles (checkFileContent H cid fc)"
    unfolding checkFileContent_def
    by (intro settles_tryCatch settles_await settles_handler)
       (simp_all add: settles_host [OF assms] settles_resolve)
  have "settles (collectErrors H cid scenario result)"
    unfolding collectErrors_def Let_def
    by (intro settles_await)
       (auto simp: settles_resolve settles_collectEach 1 2 3 split: option.splits)
  then show ?thesis
    unfolding validateScenario_def
    by (intro settles_await) (simp_all add: settles_resolve)
qed

lemma settles_runScenario:
  assumes "hostSettles H onProgress"
  shows "settles (runScenario H onProgress cid pkg cn scenario nv cmd)"
proof -
  have s: "settles (setupPhase H onProgress cid cn scenario)"
    unfolding setupPhase_def
    by (cases "scenario_setup scenario")
       (auto simp: settles_resolve settles_notify [OF assms] settles_setupScenario [OF assms]
          intro!: settles_await)
  have i: "settles (invokePhase H onProgress cid cn scenario)"
    unfolding invokePhase_def
    by (intro settles_await) (simp_all add: settles_notify [OF assms] settles_host [OF assms])
  show ?thesis
    unfolding runScenario_def
    by (intro settles_await settles_tryCatch s i settles_dateNow settles_resolve
          settles_handler settles_validateScenario [OF assms])
qed

lemma nullish_iff: "nullish e \<longleftrightarrow> (\<exists>typeError. readMessage e = Inl typeError)"
  by (cases e) simp_all

text \<open>
  What the \<^verbatim>\<open>try\<close> and \<^verbatim>\<open>catch\<close> of \<open>runScenario\<close> make of a rejected step: the
  failed record when the message of the caught value can be read, a rejection with the
  \<^verbatim>\<open>TypeError\<close> of the read when it cannot. There is no other way for it to reject.
\<close>

lemma runScenario_caught:
  assumes "stepRejected H onProgress cid cn scenario st e st'"
  shows "runScenario H onProgress cid pkg cn scenario nv cmd st
     = (case readMessage e of
          Inl typeError \<Rightarrow> (Rejected typeError, st')
        | Inr msg \<Rightarrow>
            (Resolved (failedResult cmd nv (date_now H (world st') - date_now H (world st)) msg), st'))"
  using assms unfolding runScenario_def stepRejected_def
  by (auto simp: await_def dateNow_def tryCatch_def resolve_def reject_def
      split: prod.splits outcome.splits sum.splits)

lemma runScenario_rejected:
  assumes "runScenario H onProgress cid pkg cn scenario nv cmd st = (Rejected thrown, st')"
  shows "\<exists>e. readMessage e = Inl thrown \<and> stepRejected H onProgress cid cn scenario st e st'"
proof -
  let ?S = "setupPhase H onProgress cid cn scenario st"
  obtain r1 s1 where S: "?S = (r1, s1)" by (cases ?S)
  show ?thesis
  proof (cases r1)
    case (Rejected e)
    with S have step: "stepRejected H onProgress cid cn scenario st e s1"
      by (simp add: stepRejected_def)
    from runScenario_caught [OF step, of pkg nv cmd] assms
    have "readMessage e = Inl thrown \<and> s1 = st'"
      by (cases "readMessage e") simp_all
    with step show ?thesis by blast
  next
    case Pending
    with S assms show ?thesis
      by (simp add: runScenario_def await_def dateNow_def tryCatch_def)
  next
    case (Resolved u)
    let ?I = "invokePhase H onProgress cid cn scenario s1"
    obtain r2 s2 where I: "?I = (r2, s2)" by (cases ?I)
    show ?thesis
    proof (cases r2)
      case (Rejected e)
      with S I Resolved have step: "stepRejected H onProgress cid cn scenario st e s2"
        by (auto simp: stepRejected_def)
      from runScenario_caught [OF step, of pkg nv cmd] assms
      have "readMessage e = Inl thrown \<and> s2 = st'"
        by (cases "readMessage e") simp_all
      with step show ?thesis by blast
    next
      case Pending
      with S I Resolved assms show ?thesis
        by (simp add: runScenario_def await_def dateNow_def tryCatch_def)
    next
      case result: (Resolved result)
      let ?V = "validateScenario H cid scenario result s2"
      obtain r3 s3 where V: "?V = (r3, s3)" by (cases ?V)
      show ?thesis
      proof (cases r3)
        case (Rejected e)
        with S I V Resolved result have step: "stepRejected H onProgress cid cn scenario st e s3"
          by (auto simp: stepRejected_def)
        from runScenario_caught [OF step, of pkg nv cmd] assms
        have "readMessage e = Inl thrown \<and> s3 = st'"
          by (cases "readMessage e") simp_all
        with step show ?thesis by blast
      next
        case Pending
        with S I V Resolved result assms show ?thesis
          by (simp add: runScenario_def await_def dateNow_def tryCatch_def)
      next
        case (Resolved verdict)
        with S I V \<open>r1 = Resolved u\<close> result assms show ?thesis
          by (simp add: runScenario_def await_def dateNow_def tryCatch_def resolve_def)
      qed
    qed
  qed
qed

text \<open>
  C2, as the code has it. The \<^verbatim>\<open>catch\<close> block reads the \<^verbatim>\<open>message\<close> of what it caught.
  When the setup phase, the invocation or the validation rejects with a value that is not
  null or undefined, \<open>runScenario\<close> resolves with the record of the \<^verbatim>\<open>catch\<close> block: not
  passed, exit code 1, empty standard output, and as both standard error and error the
  message of the value (undefined when it has none). When the step rejects with null or
  undefined, the read throws and \<open>runScenario\<close> rejects with that \<^verbatim>\<open>TypeError\<close>. It
  rejects in no other case; and on a host whose calls all settle it resolves with a result
  record unless a step rejected with null or undefined.
\<close>

theorem runScenario_catches_all_but_nullish:
  "(stepRejected H onProgress containerId commandName scenario st e st' \<longrightarrow>
      runScenario H onProgress containerId packageName commandName scenario nodeVersion command st
      = (case readMessage e of
           Inl typeError \<Rightarrow> (Rejected typeError, st')
         | Inr msg \<Rightarrow>
             (Resolved \<lparr> result_command = command,
                         result_nodeVersion = nodeVersion,
                         result_passed = False,
                         result_duration = date_now H (world st') - date_now H (world st),
                         result_exitCode = 1,
                         result_stdout = [],
                         result_stderr = msg,
                         result_error = msg,
                         hasHelpOutput = False,
                         hasVersionOutput = False \<rparr>, st')))
   \<and> (runScenario H onProgress containerId packageName commandName scenario nodeVersion command st
        = (Rejected thrown, st') \<longrightarrow>
      (\<exists>caught. nullish caught \<and> readMessage caught = Inl thrown
                \<and> stepRejected H onProgress containerId commandName scenario st caught st'))
   \<and> (hostSettles H onProgress \<longrightarrow>
      (\<exists>res. fst (runScenario H onProgress containerId packageName commandName scenario
                    nodeVersion command st) = Resolved res)
      \<or> (\<exists>caught after. nullish caught
            \<and> stepRejected H onProgress containerId commandName scenario st caught after))"
proof (intro conjI impI)
  assume "stepRejected H onProgress containerId commandName scenario st e st'"
  from runScenario_caught [OF this, of packageName nodeVersion command]
  show "runScenario H onProgress containerId packageName commandName scenario nodeVersion command st
      = (case readMessage e of
           Inl typeError \<Rightarrow> (Rejected typeError, st')
         | Inr msg \<Rightarrow>
             (Resolved \<lparr> result_command = command,
                         result_nodeVersion = nodeVersion,
                         result_passed = False,
                         result_duration = date_now H (world st') - date_now H (world st),
                         result_exitCode = 1,
                         result_stdout = [],
                         result_stderr = msg,
                         result_error = msg,
                         hasHelpOutput = False,
                         hasVersionOutput = False \<rparr>, st'))"
    by (simp add: failedResult_def split: sum.splits)
next
  assume "runScenario H onProgress containerId packageName commandName scenario nodeVersion command st
        = (Rejected thrown, st')"
  from runScenario_rejected [OF this]
  show "\<exists>caught. nullish caught \<and> readMessage caught = Inl thrown
                \<and> stepRejected H onProgress containerId commandName scenario st caught st'"
    by (auto simp: nullish_iff)
next
  let ?run = "runScenario H onProgress containerId packageName commandName scenario
                nodeVersion command st"
  assume "hostSettles H onProgress"
  from settles_runScenario [OF this] have settled: "fst ?run \<noteq> Pending"
    by (simp add: settles_def)
  show "(\<exists>res. fst ?run = Resolved res)
      \<or> (\<exists>caught after. nullish caught
            \<and> stepRejected H onProgress containerId commandName scenario st caught after)"
  proof (cases "fst ?run")
    case (Resolved res)
    then show ?thesis by blast
  next
    case (Rejected thrown)
    then have "?run = (Rejected thrown, snd ?run)"
      by (metis prod.collapse)
    from runScenario_rejected [OF this] show ?thesis
      by (auto simp: nullish_iff)
  next
    case Pending
    with settled show ?thesis by simp
  qed
qed

theorem runScenario_catches_all_but_nullish_witness:
  "hostSettles unreachableHost None
   \<and> stepRejected unreachableHost None ''c1'' ''test-cli'' echoScenario start
       (Error ''container not running'')
       \<lparr> world = (), calls = [ExecuteCommand ''c1'' [''echo'', ''hi'']] \<rparr>
   \<and> runScenario unreachableHost None ''c1'' ''pkg'' ''test-cli'' echoScenario ''20'' cli start
       = (Resolved \<lparr> result_command = cli,
                      result_nodeVersion = ''20'',
                      result_passed = False,
                      result_duration = 0,
                      result_exitCode = 1,
                      result_stdout = [],
                      result_stderr = Some ''container not running'',
                      result_error = Some ''container not running'',
                      hasHelpOutput = False,
                      hasVersionOutput = False \<rparr>,
          \<lparr> world = (), calls = [ExecuteCommand ''c1'' [''echo'', ''hi'']] \<rparr>)"
proof -
  have h0: "hostSettles unreachableHost None"
    by (simp add: hostSettles_def unreachableHost_def stubHost_def)
  have h1: "setupPhase unreachableHost None ''c1'' ''test-cli'' echoScenario start = (Resolved (), start)"
    by code_simp
  have h2: "invokePhase unreachableHost None ''c1'' ''test-cli'' echoScenario start
       = (Rejected (Error ''container not running''),
          \<lparr> world = (), calls = [ExecuteCommand ''c1'' [''echo'', ''hi'']] \<rparr>)"
    by code_simp
  have step: "stepRejected unreachableHost None ''c1'' ''test-cli'' echoScenario start
       (Error ''container not running'')
       \<lparr> world = (), calls = [ExecuteCommand ''c1'' [''echo'', ''hi'']] \<rparr>"
    unfolding stepRejected_def using h1 h2 by blast
  have now: "date_now unreachableHost () = 0"
    by (simp add: unreachableHost_def stubHost_def)
  from runScenario_catches_all_but_nullish
    [where H = unreachableHost and packageName = "''pkg''" and nodeVersion = "''20''"
       and command = cli, THEN conjunct1, rule_format, OF step]
  have "runScenario unreachableHost None ''c1'' ''pkg'' ''test-cli'' echoScenario ''20'' cli start
       = (Resolved \<lparr> result_command = cli,
                      result_nodeVersion = ''20'',
                      result_passed = False,
                      result_duration = 0,
                      result_exitCode = 1,
                      result_stdout = [],
                      result_stderr = Some ''container not running'',
                      result_error = Some ''container not running'',
                      hasHelpOutput = False,
                      hasVersionOutput = False \<rparr>,
          \<lparr> world = (), calls = [ExecuteCommand ''c1'' [''echo'', ''hi'']] \<rparr>)"
    by (simp add: now start_def)
  with h0 step show ?thesis by blast
qed

text \<open>
  The claim as stated fails where a step rejects with \<^verbatim>\<open>undefined\<close>: the invocation
  rejects, the \<^verbatim>\<open>catch\<close> block throws on reading the message, and \<open>runScenario\<close> rejects
  instead of returning a record.
\<close>

theorem runScenario_catches_all_but_nullish_counterexample:
  \<open>invokePhase undefinedHost None ''c1'' ''test-cli'' echoScenario start
     = (Rejected Undefined, \<lparr> world = (), calls = [ExecuteCommand ''c1'' [''echo'', ''hi'']] \<rparr>)
   \<and> runScenario undefinedHost None ''c1'' ''pkg'' ''test-cli'' echoScenario ''20'' cli start
     = (Rejected (Error ''Cannot read properties of undefined (reading 'message')''),
        \<lparr> world = (), calls = [ExecuteCommand ''c1'' [''echo'', ''hi'']] \<rparr>)\<close>
  by code_simp

text \<open>
  C3. A provisioning step is a call of the provisioning plan, and it fails when the call
  rejects with an exception that has a message. Let the scenario have a setup block, and
  let the calls of its plan before the \<open>k\<close>-th resolve and the \<open>k\<close>-th reject with such an
  exception. Then provisioning rejects with it, and the run ends there: the calls of the
  run after the notification are the first \<open>k + 1\<close> calls of the plan, the failing one
  last, so the command of the scenario is not invoked (its argv reaches the executor
  only where the plan itself holds that command line). \<open>runScenario\<close> resolves with a
  record that has not passed, with exit code 1, empty standard output, and the message
  of the failure as standard error and as error.
\<close>

theorem runScenario_setup_failure:
  assumes "scenario_setup scenario = Some su"
    and \<open>notify onProgress
           \<lparr> stage = TESTING_COMMAND,
             event_message = ''Setting up scenario: '' @ scenario_name scenario,
             currentCommand = Some commandName \<rparr> st = (Resolved (), st1)\<close>
    and "k < length (setupPlan containerId su)"
    and "runCalls H (take k (setupPlan containerId su)) st1 = (Resolved (), st2)"
    and "attempt H (setupPlan containerId su ! k) st2 = (Rejected (Error msg), st')"
  shows "setupScenario H containerId (Some su) st1 = (Rejected (Error msg), st')
       \<and> calls st' = calls st1 @ take (Suc k) (setupPlan containerId su)
       \<and> runScenario H onProgress containerId packageName commandName scenario
           nodeVersion command st
         = (Resolved \<lparr> result_command = command,
                        result_nodeVersion = nodeVersion,
                        result_passed = False,
                        result_duration = date_now H (world st') - date_now H (world st),
                        result_exitCode = 1,
                        result_stdout = [],
                        result_stderr = Some msg,
                        result_error = Some msg,
                        hasHelpOutput = False,
                        hasVersionOutput = False \<rparr>, st')
       \<and> (ExecuteCommand containerId (fullCommand scenario) \<notin> set (setupPlan containerId su)
            \<longrightarrow> ExecuteCommand containerId (fullCommand scenario)
                  \<notin> set (take (Suc k) (setupPlan containerId su)))"
proof -
  have provisioning: "setupScenario H containerId (Some su) st1 = (Rejected (Error msg), st')"
    unfolding setupScenario_runs_plan
    by (rule runCalls_stops_at_rejection(1) [OF assms(3-5)])
  have made: "calls st' = calls st1 @ take (Suc k) (setupPlan containerId su)"
    by (rule runCalls_stops_at_rejection(2) [OF assms(3-5)])
  have "setupPhase H onProgress containerId commandName scenario st = (Rejected (Error msg), st')"
    using assms(1,2) provisioning by (simp add: setupPhase_def await_def)
  then have "stepRejected H onProgress containerId commandName scenario st (Error msg) st'"
    by (simp add: stepRejected_def)
  from runScenario_caught [OF this, of packageName nodeVersion command]
  have "runScenario H onProgress containerId packageName commandName scenario
           nodeVersion command st
         = (Resolved \<lparr> result_command = command,
                        result_nodeVersion = nodeVersion,
                        result_passed = False,
                        result_duration = date_now H (world st') - date_now H (world st),
                        result_exitCode = 1,
                        result_stdout = [],
                        result_stderr = Some msg,
                        result_error = Some msg,
                        hasHelpOutput = False,
                        hasVersionOutput = False \<rparr>, st')"
    by (simp add: failedResult_def)
  with provisioning made show ?thesis
    by (auto dest: in_set_takeD)
qed

theorem runScenario_setup_failure_witness:
  "scenario_setup demoScenario = Some demoSetup
   \<and> runCalls installFails (take 6 (setupPlan ''c1'' demoSetup)) start
       = (Resolved (), \<lparr> world = (), calls = take 6 demoSetupCalls \<rparr>)
   \<and> attempt installFails (setupPlan ''c1'' demoSetup ! 6) \<lparr> world = (), calls = take 6 demoSetupCalls \<rparr>
       = (Rejected (Error ''npm install failed''), \<lparr> world = (), calls = demoSetupCalls \<rparr>)
   \<and> setupScenario installFails ''c1'' (Some demoSetup) start
       = (Rejected (Error ''npm install failed''), \<lparr> world = (), calls = demoSetupCalls \<rparr>)
   \<and> runScenario installFails None ''c1'' ''pkg'' ''test-cli'' demoScenario ''20'' cli start
       = (Resolved \<lparr> result_command = cli,
                      result_nodeVersion = ''20'',
                      result_passed = False,
                      result_duration = 0,
                      result_exitCode = 1,
                      result_stdout = [],
                      result_stderr = Some ''npm install failed'',
                      result_error = Some ''npm install failed'',
                      hasHelpOutput = False,
                      hasVersionOutput = False \<rparr>,
          \<lparr> world = (), calls = demoSetupCalls \<rparr>)
   \<and> ExecuteCommand ''c1'' [''test-cli'', ''--version''] \<notin> set demoSetupCalls"
proof -
  have h1: "scenario_setup demoScenario = Some demoSetup"
    by (simp add: demoScenario_def)
  have h2: \<open>notify None
           \<lparr> stage = TESTING_COMMAND,
             event_message = ''Setting up scenario: '' @ scenario_name demoScenario,
             currentCommand = Some ''test-cli'' \<rparr> start = (Resolved (), start)\<close>
    by (simp add: resolve_def)
  have h3: "6 < length (setupPlan ''c1'' demoSetup)"
    by code_simp
  have h4: "runCalls installFails (take 6 (setupPlan ''c1'' demoSetup)) start
       = (Resolved (), \<lparr> world = (), calls = take 6 demoSetupCalls \<rparr>)"
    by code_simp
  have h5: "attempt installFails (setupPlan ''c1'' demoSetup ! 6)
              \<lparr> world = (), calls = take 6 demoSetupCalls \<rparr>
       = (Rejected (Error ''npm install failed''), \<lparr> world = (), calls = demoSetupCalls \<rparr>)"
    by code_simp
  have argv: "fullCommand demoScenario = [''test-cli'', ''--version'']"
    by (simp add: fullCommand_def demoScenario_def)
  have plan: "ExecuteCommand ''c1'' (fullCommand demoScenario) \<notin> set (setupPlan ''c1'' demoSetup)"
    by code_simp
  have now: "date_now installFails () = 0"
    by (simp add: installFails_def stubHost_def)
  have all: "take 7 (setupPlan ''c1'' demoSetup) = demoSetupCalls"
    by code_simp
  from runScenario_setup_failure [OF h1 h2 h3 h4 h5, of "''pkg''" "''20''" cli] plan
  have "setupScenario installFails ''c1'' (Some demoSetup) start
       = (Rejected (Error ''npm install failed''), \<lparr> world = (), calls = demoSetupCalls \<rparr>)
   \<and> runScenario installFails None ''c1'' ''pkg'' ''test-cli'' demoScenario ''20'' cli start
       = (Resolved \<lparr> result_command = cli,
                      result_nodeVersion = ''20'',
                      result_passed = False,
                      result_duration = 0,
                      result_exitCode = 1,
                      result_stdout = [],
                      result_stderr = Some ''npm install failed'',
                      result_error = Some ''npm install failed'',
                      hasHelpOutput = False,
                      hasVersionOutput = False \<rparr>,
          \<lparr> world = (), calls = demoSetupCalls \<rparr>)
   \<and> ExecuteCommand ''c1'' (fullCommand demoScenario) \<notin> set demoSetupCalls"
    by (simp add: now start_def all)
  with h1 h4 h5 argv show ?thesis by simp
qed

section \<open>Properties of validateScenario\<close>

lemma concat_map_if: "concat (map (\<lambda>x. if P x then [g x] else []) xs) = map g (filter P xs)"
  by (induction xs) simp_all

lemma checkPattern_matches:
  "checkStdoutPattern out = (\<lambda>m. if \<not> matches m out then [stdoutMessage m] else [])"
  "checkStderrPattern err = (\<lambda>m. if \<not> matches m err then [stderrMessage m] else [])"
  "checkContainsPattern path content
     = (\<lambda>m. if \<not> matches m content then [missingMessage path m] else [])"
  "checkNotContainsPattern path content
     = (\<lambda>m. if matches m content then [unexpectedMessage path m] else [])"
proof -
  show "checkStdoutPattern out = (\<lambda>m. if \<not> matches m out then [stdoutMessage m] else [])"
  proof
    fix m show "checkStdoutPattern out m = (if \<not> matches m out then [stdoutMessage m] else [])"
      by (cases m) (simp_all add: checkStdoutPattern_def)
  qed
  show "checkStderrPattern err = (\<lambda>m. if \<not> matches m err then [stderrMessage m] else [])"
  proof
    fix m show "checkStderrPattern err m = (if \<not> matches m err then [stderrMessage m] else [])"
      by (cases m) (simp_all add: checkStderrPattern_def)
  qed
  show "checkContainsPattern path content
     = (\<lambda>m. if \<not> matches m content then [missingMessage path m] else [])"
  proof
    fix m show "checkContainsPattern path content m
        = (if \<not> matches m content then [missingMessage path m] else [])"
      by (cases m) (simp_all add: checkContainsPattern_def)
  qed
  show "checkNotContainsPattern path content
     = (\<lambda>m. if matches m content then [unexpectedMessage path m] else [])"
  proof
    fix m show "checkNotContainsPattern path content m
        = (if matches m content then [unexpectedMessage path m] else [])"
      by (cases m) (simp_all add: checkNotContainsPattern_def)
  qed
qed

lemma checkStdout_unmatched:
  "checkStdout v r =
     (case expect_stdout v of None \<Rightarrow> []
      | Some ps \<Rightarrow> map stdoutMessage (filter (\<lambda>m. \<not> matches m (stdout r)) ps))"
  by (simp add: checkStdout_def checkPattern_matches concat_map_if split: option.splits)

lemma checkStderr_unmatched:
  "checkStderr v r =
     (case expect_stderr v of None \<Rightarrow> []
      | Some ps \<Rightarrow> map stderrMessage (filter (\<lambda>m. \<not> matches m (stderr r)) ps))"
  by (simp add: checkStderr_def checkPattern_matches concat_map_if split: option.splits)

lemma checkContent_unmatched:
  \<open>checkContent fc content =
     (case equals fc of None \<Rightarrow> []
      | Some expected \<Rightarrow>
          if trim content = trim expected then []
          else [''File '' @ check_path fc @ '' content doesn't match expected''])
     @ (case contains fc of None \<Rightarrow> []
        | Some ps \<Rightarrow> map (missingMessage (check_path fc)) (filter (\<lambda>m. \<not> matches m content) ps))
     @ (case notContains fc of None \<Rightarrow> []
        | Some ps \<Rightarrow> map (unexpectedMessage (check_path fc)) (filter (\<lambda>m. matches m content) ps))\<close>
  by (simp add: checkContent_def checkEquals_def checkPattern_matches concat_map_if
      split: option.splits)

lemma str_includes_sublist: "str_includes s p \<longleftrightarrow> sublist p s"
proof (induction s)
  case Nil
  show ?case by simp
next
  case (Cons c cs)
  have "take (length p) (c # cs) = p \<longleftrightarrow> prefix p (c # cs)"
    by (metis append_eq_conv_conj prefix_def)
  then show ?case
    using Cons.IH by (cases p) (auto simp: sublist_Cons_right)
qed

lemma logged_simps [simp]:
  "logged [] st = st"
  "logged b (logged a st) = logged (a @ b) st"
  "calls (logged a st) = calls st @ a"
  "world (logged a st) = world st"
  by (simp_all add: logged_def)

lemma perform_unchanged:
  "op (world st) = (r, world st) \<Longrightarrow> perform c op st = (r, logged [c] st)"
  by (simp add: perform_def logged_def)

lemma collectEach_answers:
  assumes "\<And>x st. x \<in> set xs \<Longrightarrow> body x st = (Resolved (f x), logged (g x) st)"
  shows "collectEach body xs st = (Resolved (concat (map f xs)), logged (concat (map g xs)) st)"
  using assms
proof (induction xs arbitrary: st)
  case Nil
  show ?case by (simp add: resolve_def)
next
  case (Cons x xs)
  have hd: "body x st = (Resolved (f x), logged (g x) st)"
    by (rule Cons.prems) simp
  have tl: "collectEach body xs (logged (g x) st)
      = (Resolved (concat (map f xs)), logged (concat (map g xs)) (logged (g x) st))"
    by (rule Cons.IH) (simp add: Cons.prems)
  show ?case
    by (simp add: await_def hd tl resolve_def)
qed

lemma checkFileExists_answer:
  assumes "\<And>p w. dm_fileExists H cid p w = (Resolved (present p), w)"
  shows \<open>checkFileExists H cid path st
     = (Resolved (if \<not> present (''/test/'' @ path) then [''Expected file not found: '' @ path] else []),
        logged [FileExists cid (''/test/'' @ path)] st)\<close>
  by (simp add: checkFileExists_def dockerManager_fileExists_def await_def resolve_def
      perform_unchanged assms)

lemma checkFileNotExists_answer:
  assumes "\<And>p w. dm_fileExists H cid p w = (Resolved (present p), w)"
  shows \<open>checkFileNotExists H cid path st
     = (Resolved (if present (''/test/'' @ path) then [''File should not exist: '' @ path] else []),
        logged [FileExists cid (''/test/'' @ path)] st)\<close>
  by (simp add: checkFileNotExists_def dockerManager_fileExists_def await_def resolve_def
      perform_unchanged assms)

lemma checkFileContent_answer:
  assumes "\<And>p w. dm_readFile H cid p w = (content p, w)"
    and \<open>content (''/test/'' @ check_path fc) = Resolved text\<close>
  shows \<open>checkFileContent H cid fc st
     = (Resolved (checkContent fc text), logged [ReadFile cid (''/test/'' @ check_path fc)] st)\<close>
  using assms(2)
  by (simp add: checkFileContent_def dockerManager_readFile_def tryCatch_def await_def resolve_def
      perform_unchanged assms(1))

text \<open>
  C1. Take a host that answers existence queries and reads from fixed tables without
  changing the world, a result whose exit code is not the expected one, a \<^verbatim>\<open>stdout\<close>
  list with exactly one matcher that fails, a \<^verbatim>\<open>filesExist\<close> list with exactly one
  path that is missing, and no other violation. Then validation makes every query of
  every category, collects exactly three messages, one for each violation, in the order
  exit code, output, file, and reports them joined.
\<close>

theorem validateScenario_collects_every_failure:
  assumes fe: "\<And>p w. dm_fileExists H containerId p w = (Resolved (present p), w)"
    and rf: "\<And>p w. dm_readFile H containerId p w = (content p, w)"
    and v: "v = validate scenario"
    and code: "expected = (case expect_exitCode v of Some n \<Rightarrow> n | None \<Rightarrow> 0)"
              "exitCode result \<noteq> expected"
    and out: "expect_stdout v = Some outs"
             "filter (\<lambda>m. \<not> matches m (stdout result)) outs = [unmatched]"
    and err: "case expect_stderr v of None \<Rightarrow> True
              | Some ms \<Rightarrow> list_all (\<lambda>m. matches m (stderr result)) ms"
    and exist: "filesExist v = Some paths"
               \<open>filter (\<lambda>p. \<not> present (''/test/'' @ p)) paths = [missing]\<close>
    and absent: \<open>case filesNotExist v of None \<Rightarrow> True
                 | Some ps \<Rightarrow> list_all (\<lambda>p. \<not> present (''/test/'' @ p)) ps\<close>
    and contents: \<open>case fileContents v of None \<Rightarrow> True
                   | Some fcs \<Rightarrow>
                       list_all (\<lambda>fc. case content (''/test/'' @ check_path fc) of
                                         Resolved text \<Rightarrow> checkContent fc text = []
                                       | _ \<Rightarrow> False) fcs\<close>
    and msgs: \<open>e1 = ''Expected exit code '' @ showInt expected @ '', got '' @ showInt (exitCode result)\<close>
              \<open>e2 = stdoutMessage unmatched\<close>
              \<open>e3 = ''Expected file not found: '' @ missing\<close>
  shows \<open>collectErrors H containerId scenario result st
           = (Resolved [e1, e2, e3], logged (validationPlan containerId v) st)
         \<and> validateScenario H containerId scenario result st
           = (Resolved \<lparr> passed = False, error = Some (e1 @ ''; '' @ e2 @ ''; '' @ e3) \<rparr>,
              logged (validationPlan containerId v) st)\<close>
proof -
  have c1: "checkExitCode v result = [e1]"
    using code msgs by (simp add: checkExitCode_def)
  have c2: "checkStdout v result = [e2]"
    using out msgs by (simp add: checkStdout_unmatched)
  have c3: "checkStderr v result = []"
    using err by (auto simp: checkStderr_unmatched list_all_iff filter_empty_conv split: option.splits)
  have q1: \<open>collectEach (checkFileExists H containerId) paths st
      = (Resolved [e3], logged (map (\<lambda>p. FileExists containerId (''/test/'' @ p)) paths) st)\<close>
    (is "_ = (_, ?st1)")
  proof -
    have \<open>concat (map (\<lambda>p. if \<not> present (''/test/'' @ p)
                            then [''Expected file not found: '' @ p] else []) paths) = [e3]\<close>
      using exist(2) msgs(3) by (simp add: concat_map_if)
    moreover have \<open>concat (map (\<lambda>p. [FileExists containerId (''/test/'' @ p)]) paths)
        = map (\<lambda>p. FileExists containerId (''/test/'' @ p)) paths\<close>
      by (induction paths) simp_all
    ultimately show ?thesis
      using collectEach_answers
        [of paths "checkFileExists H containerId"
            "\<lambda>p. if \<not> present (''/test/'' @ p) then [''Expected file not found: '' @ p] else []"
            "\<lambda>p. [FileExists containerId (''/test/'' @ p)]" st]
      by (simp add: checkFileExists_answer [OF fe])
  qed
  have q2: \<open>(case filesNotExist v of None \<Rightarrow> resolve []
             | Some ps \<Rightarrow> collectEach (checkFileNotExists H containerId) ps) st'
      = (Resolved [], logged (case filesNotExist v of None \<Rightarrow> []
             | Some ps \<Rightarrow> map (\<lambda>p. FileExists containerId (''/test/'' @ p)) ps) st')\<close> for st'
  proof (cases "filesNotExist v")
    case None
    then show ?thesis by (simp add: resolve_def)
  next
    case (Some ps)
    have \<open>concat (map (\<lambda>p. if present (''/test/'' @ p)
                            then [''File should not exist: '' @ p] else []) ps) = []\<close>
      using absent Some by (simp add: list_all_iff)
    moreover have \<open>concat (map (\<lambda>p. [FileExists containerId (''/test/'' @ p)]) ps)
        = map (\<lambda>p. FileExists containerId (''/test/'' @ p)) ps\<close>
      by (induction ps) simp_all
    ultimately show ?thesis
      using Some collectEach_answers
        [of ps "checkFileNotExists H containerId"
            "\<lambda>p. if present (''/test/'' @ p) then [''File should not exist: '' @ p] else []"
            "\<lambda>p. [FileExists containerId (''/test/'' @ p)]" st']
      by (simp add: checkFileNotExists_answer [OF fe])
  qed
  have q3: \<open>(case fileContents v of None \<Rightarrow> resolve []
             | Some fcs \<Rightarrow> collectEach (checkFileContent H containerId) fcs) st'
      = (Resolved [], logged (case fileContents v of None \<Rightarrow> []
             | Some fcs \<Rightarrow> map (\<lambda>fc. ReadFile containerId (''/test/'' @ check_path fc)) fcs) st')\<close> for st'
  proof (cases "fileContents v")
    case None
    then show ?thesis by (simp add: resolve_def)
  next
    case (Some fcs)
    have each: \<open>checkFileContent H containerId fc s
        = (Resolved [], logged [ReadFile containerId (''/test/'' @ check_path fc)] s)\<close>
      if "fc \<in> set fcs" for fc s
    proof -
      from contents Some have \<open>list_all (\<lambda>fc. case content (''/test/'' @ check_path fc) of
                                         Resolved found \<Rightarrow> checkContent fc found = []
                                       | _ \<Rightarrow> False) fcs\<close>
        by simp
      with that have ok: \<open>case content (''/test/'' @ check_path fc) of
                          Resolved found \<Rightarrow> checkContent fc found = [] | _ \<Rightarrow> False\<close>
        unfolding list_all_iff by blast
      show ?thesis
      proof (cases \<open>content (''/test/'' @ check_path fc)\<close>)
        case (Resolved found)
        with ok have "checkContent fc found = []" by simp
        with checkFileContent_answer [OF rf Resolved] show ?thesis by simp
      next
        case (Rejected e)
        with ok show ?thesis by simp
      next
        case Pending
        with ok show ?thesis by simp
      qed
    qed
    have \<open>concat (map (\<lambda>fc. [ReadFile containerId (''/test/'' @ check_path fc)]) fcs)
        = map (\<lambda>fc. ReadFile containerId (''/test/'' @ check_path fc)) fcs\<close>
      by (induction fcs) simp_all
    then show ?thesis
      using Some collectEach_answers
        [of fcs "checkFileContent H containerId" "\<lambda>fc. []"
            "\<lambda>fc. [ReadFile containerId (''/test/'' @ check_path fc)]" st', OF each]
      by simp
  qed
  have collected: \<open>collectErrors H containerId scenario result st
      = (Resolved [e1, e2, e3], logged (validationPlan containerId v) st)\<close>
    unfolding collectErrors_def Let_def v [symmetric]
    by (simp add: await_def exist(1) q1 q2 q3 c1 c2 c3 resolve_def validationPlan_def)
  then show ?thesis
    by (simp add: validateScenario_def await_def resolve_def)
qed

theorem validateScenario_collects_every_failure_witness:
  \<open>collectErrors helloHost ''c1'' threeFailures (exited 2 ''ok'') start
     = (Resolved [''Expected exit code 0, got 2'',
                  ''Stdout missing expected text: "done"'',
                  ''Expected file not found: out.txt''],
        \<lparr> world = (),
          calls = [FileExists ''c1'' ''/test/in.txt'', FileExists ''c1'' ''/test/out.txt'',
                   FileExists ''c1'' ''/test/tmp.txt'', ReadFile ''c1'' ''/test/in.txt''] \<rparr>)
   \<and> validateScenario helloHost ''c1'' threeFailures (exited 2 ''ok'') start
     = (Resolved \<lparr> passed = False,
                    error = Some (''Expected exit code 0, got 2; ''
                                  @ ''Stdout missing expected text: "done"; ''
                                  @ ''Expected file not found: out.txt'') \<rparr>,
        \<lparr> world = (),
          calls = [FileExists ''c1'' ''/test/in.txt'', FileExists ''c1'' ''/test/out.txt'',
                   FileExists ''c1'' ''/test/tmp.txt'', ReadFile ''c1'' ''/test/in.txt''] \<rparr>)\<close>
proof -
  let ?v = "validate threeFailures" and ?r = \<open>exited 2 ''ok''\<close>
  have fe: "\<And>p w. dm_fileExists helloHost ''c1'' p w = (Resolved (helloPresent p), w)"
    and rf: "\<And>p w. dm_readFile helloHost ''c1'' p w = (helloContent p, w)"
    by (simp_all add: helloHost_def stubHost_def)
  have code: "(0::int) = (case expect_exitCode ?v of Some n \<Rightarrow> n | None \<Rightarrow> 0)"
             "exitCode ?r \<noteq> 0"
    by (simp_all add: threeFailures_def exited_def)
  have out: \<open>expect_stdout ?v = Some [Text ''ok'', Text ''done'']\<close>
            \<open>filter (\<lambda>m. \<not> matches m (stdout ?r)) [Text ''ok'', Text ''done''] = [Text ''done'']\<close>
    by (simp_all add: threeFailures_def exited_def)
  have err: "case expect_stderr ?v of None \<Rightarrow> True
             | Some ms \<Rightarrow> list_all (\<lambda>m. matches m (stderr ?r)) ms"
    by (simp add: threeFailures_def exited_def)
  have exist: \<open>filesExist ?v = Some [''in.txt'', ''out.txt'']\<close>
              \<open>filter (\<lambda>p. \<not> helloPresent (''/test/'' @ p)) [''in.txt'', ''out.txt''] = [''out.txt'']\<close>
    by (simp_all add: threeFailures_def helloPresent_def)
  have absent: \<open>case filesNotExist ?v of None \<Rightarrow> True
                | Some ps \<Rightarrow> list_all (\<lambda>p. \<not> helloPresent (''/test/'' @ p)) ps\<close>
    by (simp add: threeFailures_def helloPresent_def)
  have contents: \<open>case fileContents ?v of None \<Rightarrow> True
                  | Some fcs \<Rightarrow>
                      list_all (\<lambda>fc. case helloContent (''/test/'' @ check_path fc) of
                                        Resolved text \<Rightarrow> checkContent fc text = []
                                      | _ \<Rightarrow> False) fcs\<close>
    by (simp add: threeFailures_def helloContent_def checkContent_unmatched trim_def isWhiteSpace_def)
  have e1: \<open>''Expected exit code 0, got 2''
      = ''Expected exit code '' @ showInt 0 @ '', got '' @ showInt (exitCode ?r)\<close>
    by code_simp
  have e2: \<open>''Stdout missing expected text: "done"'' = stdoutMessage (Text ''done'')\<close>
    by simp
  have e3: \<open>''Expected file not found: out.txt'' = ''Expected file not found: '' @ ''out.txt''\<close>
    by simp
  have asked: \<open>logged (validationPlan ''c1'' ?v) start
      = \<lparr> world = (),
          calls = [FileExists ''c1'' ''/test/in.txt'', FileExists ''c1'' ''/test/out.txt'',
                   FileExists ''c1'' ''/test/tmp.txt'', ReadFile ''c1'' ''/test/in.txt''] \<rparr>\<close>
    by (simp add: logged_def validationPlan_def threeFailures_def start_def)
  from validateScenario_collects_every_failure
         [where H = helloHost and present = helloPresent and content = helloContent
            and st = start, OF fe rf refl code out err exist absent contents e1 e2 e3]
  show ?thesis
    by (simp add: asked)
qed

lemma collectErrors_exit_code_first:
  assumes "collectErrors H cid scenario result st = (Resolved errors, st')"
  shows "\<exists>others.
           errors = checkExitCode (validate scenario) result @ others
           \<and> collectErrors H cid scenario (result\<lparr>exitCode := code\<rparr>) st
               = (Resolved (checkExitCode (validate scenario) (result\<lparr>exitCode := code\<rparr>) @ others), st')"
proof -
  let ?v = "validate scenario"
  from assms obtain missing unexpected content_errors where
    errors: "errors = checkExitCode ?v result @ checkStdout ?v result @ checkStderr ?v result
               @ missing @ unexpected @ content_errors"
    and again: "\<And>r. collectErrors H cid scenario r st
        = (Resolved (checkExitCode ?v r @ checkStdout ?v r @ checkStderr ?v r
             @ missing @ unexpected @ content_errors), st')"
    unfolding collectErrors_def Let_def
    by (auto simp: resolve_def elim!: await_cases) (auto simp: await_def resolve_def)
  have same: "checkStdout ?v (result\<lparr>exitCode := code\<rparr>) = checkStdout ?v result"
             "checkStderr ?v (result\<lparr>exitCode := code\<rparr>) = checkStderr ?v result"
    by (simp_all add: checkStdout_def checkStderr_def split: option.splits)
  show ?thesis
    using errors again [of "result\<lparr>exitCode := code\<rparr>"] same
    by (intro exI [of _ "checkStdout ?v result @ checkStderr ?v result
                          @ missing @ unexpected @ content_errors"]) simp
qed

text \<open>
  C5. When the \<^verbatim>\<open>validate\<close> block has no \<^verbatim>\<open>exitCode\<close>, the expected exit code is 0:
  the messages validation collects are, first, nothing for an actual exit code of 0 and
  the one message \<^verbatim>\<open>Expected exit code 0, got n\<close> for any other actual code \<open>n\<close>, and
  then exactly the messages the same run collects when the command exits with 0.
\<close>

theorem validateScenario_default_exit_code:
  assumes "expect_exitCode (validate scenario) = None"
    and "collectErrors H containerId scenario result st = (Resolved errors, st')"
  shows \<open>\<exists>others.
           errors = (if exitCode result = 0 then []
                     else [''Expected exit code 0, got '' @ showInt (exitCode result)]) @ others
           \<and> collectErrors H containerId scenario (result\<lparr>exitCode := 0\<rparr>) st = (Resolved others, st')\<close>
proof -
  have zero: "showInt 0 = ''0''"
    by code_simp
  from collectErrors_exit_code_first [OF assms(2), of 0] obtain others where
    "errors = checkExitCode (validate scenario) result @ others"
    "collectErrors H containerId scenario (result\<lparr>exitCode := 0\<rparr>) st
       = (Resolved (checkExitCode (validate scenario) (result\<lparr>exitCode := 0\<rparr>) @ others), st')"
    by blast
  then show ?thesis
    using assms(1) by (intro exI [of _ others]) (simp add: checkExitCode_def zero)
qed

theorem validateScenario_default_exit_code_witness:
  \<open>expect_exitCode (validate emptyValidate) = None
   \<and> collectErrors quietHost ''c1'' emptyValidate (exited 1 []) start
       = (Resolved [''Expected exit code 0, got 1''], start)
   \<and> collectErrors quietHost ''c1'' emptyValidate (exited 0 []) start = (Resolved [], start)\<close>
proof -
  have h1: "expect_exitCode (validate emptyValidate) = None"
    by (simp add: emptyValidate_def noChecks_def)
  have h2: \<open>collectErrors quietHost ''c1'' emptyValidate (exited 1 []) start
       = (Resolved [''Expected exit code 0, got 1''], start)\<close>
    by code_simp
  have one: "showInt 1 = ''1''"
    by code_simp
  from validateScenario_default_exit_code [OF h1 h2]
  have "collectErrors quietHost ''c1'' emptyValidate ((exited 1 [])\<lparr>exitCode := 0\<rparr>) start
       = (Resolved [], start)"
    by (auto simp: exited_def one)
  then have "collectErrors quietHost ''c1'' emptyValidate (exited 0 []) start = (Resolved [], start)"
    by (simp add: exited_def)
  with h1 h2 show ?thesis by simp
qed

text \<open>
  C6. For an entry of \<^verbatim>\<open>fileContents\<close> whose file has been read, the messages are: one
  for \<^verbatim>\<open>equals\<close> when the content and the expected text differ after both are trimmed;
  one for each matcher of \<^verbatim>\<open>contains\<close> that does not hold of the content as read,
  untrimmed; one for each matcher of \<^verbatim>\<open>notContains\<close> that holds of it. A literal
  matcher holds when its text occurs in the content, a pattern when its test succeeds.
\<close>

theorem checkFileContent_trims_only_for_equals:
  assumes \<open>dockerManager_readFile H containerId (''/test/'' @ check_path fileCheck) st
             = (Resolved content, st')\<close>
  shows \<open>checkFileContent H containerId fileCheck st
     = (Resolved
          ((case equals fileCheck of
              None \<Rightarrow> []
            | Some expected \<Rightarrow>
                if trim content = trim expected then []
                else [''File '' @ check_path fileCheck @ '' content doesn't match expected''])
           @ (case contains fileCheck of
                None \<Rightarrow> []
              | Some patterns \<Rightarrow>
                  map (missingMessage (check_path fileCheck))
                    (filter (\<lambda>m. \<not> matches m content) patterns))
           @ (case notContains fileCheck of
                None \<Rightarrow> []
              | Some patterns \<Rightarrow>
                  map (unexpectedMessage (check_path fileCheck))
                    (filter (\<lambda>m. matches m content) patterns))),
        st')
     \<and> (\<forall>t. matches (Text t) content \<longleftrightarrow> sublist t content)\<close>
  using assms
  by (simp add: checkFileContent_def tryCatch_def await_def resolve_def
      checkContent_unmatched [symmetric] str_includes_sublist)

theorem checkFileContent_trims_only_for_equals_witness:
  \<open>dockerManager_readFile helloHost ''c1'' ''/test/in.txt'' start
     = (Resolved (''hello'' @ [CHR 0x0A]), \<lparr> world = (), calls = [ReadFile ''c1'' ''/test/in.txt''] \<rparr>)
   \<and> checkFileContent helloHost ''c1'' (checkOf (Some ''hello'') None None) start
     = (Resolved [], \<lparr> world = (), calls = [ReadFile ''c1'' ''/test/in.txt''] \<rparr>)
   \<and> checkFileContent helloHost ''c1'' (checkOf None (Some [Text ''hell'']) None) start
     = (Resolved [], \<lparr> world = (), calls = [ReadFile ''c1'' ''/test/in.txt''] \<rparr>)
   \<and> checkFileContent helloHost ''c1'' (checkOf None (Some [Text ''World'']) None) start
     = (Resolved [''File in.txt missing expected text: "World"''],
        \<lparr> world = (), calls = [ReadFile ''c1'' ''/test/in.txt''] \<rparr>)
   \<and> checkFileContent helloHost ''c1'' (checkOf None None (Some [Text [CHR 0x0A]])) start
     = (Resolved [''File in.txt contains unexpected text: "'' @ [CHR 0x0A] @ ''"''],
        \<lparr> world = (), calls = [ReadFile ''c1'' ''/test/in.txt''] \<rparr>)\<close>
proof -
  have h: \<open>dockerManager_readFile helloHost ''c1'' (''/test/'' @ check_path (checkOf eq has hasNot)) start
     = (Resolved (''hello'' @ [CHR 0x0A]), \<lparr> world = (), calls = [ReadFile ''c1'' ''/test/in.txt''] \<rparr>)\<close>
    for eq has hasNot
    by (simp add: checkOf_def dockerManager_readFile_def perform_def helloHost_def stubHost_def
        helloContent_def start_def)
  have trimmed: \<open>trim (''hello'' @ [CHR 0x0A]) = trim ''hello''\<close>
    by (simp add: trim_def isWhiteSpace_def)
  show ?thesis
    using checkFileContent_trims_only_for_equals [OF h [of "Some ''hello''" None None]]
      checkFileContent_trims_only_for_equals [OF h [of None "Some [Text ''hell'']" None]]
      checkFileContent_trims_only_for_equals [OF h [of None "Some [Text ''World'']" None]]
      checkFileContent_trims_only_for_equals [OF h [of None None "Some [Text [CHR 0x0A]]"]]
      h [of None None None] trimmed
    by (simp add: checkOf_def)
qed

text \<open>
  C8. The verdict of validation is made from the collected messages alone: it has passed
  exactly when there is none; with at least one, its error is the messages joined with
  a semicolon and a space; with none, it has no error at all. Every verdict validation
  resolves with is made so.
\<close>

theorem validateScenario_verdict:
  \<open>(collectErrors H containerId scenario result st = (Resolved errors, st')
      \<longrightarrow> validateScenario H containerId scenario result st
            = (Resolved \<lparr> passed = (errors = []),
                           error = (if errors = [] then None else Some (join ''; '' errors)) \<rparr>, st'))
   \<and> (validateScenario H containerId scenario result st = (Resolved verdict, st')
      \<longrightarrow> (\<exists>collected.
             collectErrors H containerId scenario result st = (Resolved collected, st')
             \<and> passed verdict = (collected = [])
             \<and> error verdict = (if collected = [] then None else Some (join ''; '' collected))))\<close>
proof (intro conjI impI)
  assume "collectErrors H containerId scenario result st = (Resolved errors, st')"
  then show \<open>validateScenario H containerId scenario result st
            = (Resolved \<lparr> passed = (errors = []),
                           error = (if errors = [] then None else Some (join ''; '' errors)) \<rparr>, st')\<close>
    by (simp add: validateScenario_def await_def resolve_def)
next
  assume "validateScenario H containerId scenario result st = (Resolved verdict, st')"
  then show \<open>\<exists>collected.
             collectErrors H containerId scenario result st = (Resolved collected, st')
             \<and> passed verdict = (collected = [])
             \<and> error verdict = (if collected = [] then None else Some (join ''; '' collected))\<close>
    unfolding validateScenario_def
    by (elim await_cases) (auto simp: resolve_def split: if_splits)
qed

theorem validateScenario_verdict_witness:
  \<open>collectErrors quietHost ''c1'' scenarioFalse (exited 1 []) start
     = (Resolved [''Expected exit code 0, got 1'', ''Expected file not found: out.txt''],
        \<lparr> world = (), calls = [FileExists ''c1'' ''/test/out.txt''] \<rparr>)
   \<and> validateScenario quietHost ''c1'' scenarioFalse (exited 1 []) start
     = (Resolved \<lparr> passed = False,
                    error = Some ''Expected exit code 0, got 1; Expected file not found: out.txt'' \<rparr>,
        \<lparr> world = (), calls = [FileExists ''c1'' ''/test/out.txt''] \<rparr>)
   \<and> collectErrors quietHost ''c1'' echoScenario (exited 0 ''hi'') start = (Resolved [], start)
   \<and> validateScenario quietHost ''c1'' echoScenario (exited 0 ''hi'') start
     = (Resolved \<lparr> passed = True, error = None \<rparr>, start)\<close>
proof -
  have h1: \<open>collectErrors quietHost ''c1'' scenarioFalse (exited 1 []) start
     = (Resolved [''Expected exit code 0, got 1'', ''Expected file not found: out.txt''],
        \<lparr> world = (), calls = [FileExists ''c1'' ''/test/out.txt''] \<rparr>)\<close>
    by code_simp
  have h2: \<open>collectErrors quietHost ''c1'' echoScenario (exited 0 ''hi'') start = (Resolved [], start)\<close>
    by code_simp
  from validateScenario_verdict
         [where H = quietHost and scenario = scenarioFalse and st = start, THEN conjunct1, rule_format, OF h1]
       validateScenario_verdict
         [where H = quietHost and scenario = echoScenario and st = start, THEN conjunct1, rule_format, OF h2]
       h1 h2
  show ?thesis by simp
qed

end
